theory Spec2Isabelle
  imports Main "HOL-Library.Sublist"
begin

section \<open>Python values\<close>

text \<open>
  The resume agent works on what \<^verbatim>\<open>llm.call_json\<close> parsed: \<^verbatim>\<open>None\<close>, booleans,
  integers, strings, lists and dictionaries with string keys. A dictionary is an association
  list; \<^verbatim>\<open>d.get(k, default)\<close> reads the first binding of \<open>k\<close>. Integers are unbounded, as
  Python's are. Floating-point numbers are not part of the model. Text is ASCII: the
  character functions below leave every other byte as it is.
\<close>

datatype pyval =
    PNone
  | PBool bool
  | PInt int
  | PStr string
  | PList "pyval list"
  | PDict "(string \<times> pyval) list"

type_synonym pydict = "(string \<times> pyval) list"

datatype py_error = AttributeError | TypeError | ValueError

definition py_bind :: "py_error + 'a \<Rightarrow> ('a \<Rightarrow> py_error + 'b) \<Rightarrow> py_error + 'b" where
  "py_bind m f = (case m of Inl e \<Rightarrow> Inl e | Inr x \<Rightarrow> f x)"

text \<open>\<^verbatim>\<open>d.get(k, default)\<close> on a dictionary.\<close>

definition dict_get :: "pydict \<Rightarrow> string \<Rightarrow> pyval \<Rightarrow> pyval" where
  "dict_get d k dflt = (case map_of d k of None \<Rightarrow> dflt | Some v \<Rightarrow> v)"

text \<open>
  \<^verbatim>\<open>x.get(k, default)\<close> on any value: only a dictionary has the method, every other value
  raises \<^verbatim>\<open>AttributeError\<close>.
\<close>

fun py_get :: "pyval \<Rightarrow> string \<Rightarrow> pyval \<Rightarrow> py_error + pyval" where
  "py_get (PDict d) k dflt = Inr (dict_get d k dflt)"
| "py_get _ k dflt = Inl AttributeError"

text \<open>
  \<^verbatim>\<open>for x in v\<close>: a list yields its elements, a string its characters, a dictionary its
  keys; \<^verbatim>\<open>None\<close>, a boolean and an integer are not iterable.
\<close>

fun py_iter :: "pyval \<Rightarrow> py_error + pyval list" where
  "py_iter (PList xs) = Inr xs"
| "py_iter (PStr s) = Inr (map (\<lambda>c. PStr [c]) s)"
| "py_iter (PDict d) = Inr (map (\<lambda>kv. PStr (fst kv)) d)"
| "py_iter _ = Inl TypeError"

subsection \<open>\<^verbatim>\<open>int(x)\<close>\<close>

definition is_digit :: "char \<Rightarrow> bool" where
  "is_digit c = (48 \<le> (of_char c :: nat) \<and> (of_char c :: nat) \<le> 57)"

definition digit_val :: "char \<Rightarrow> int" where
  "digit_val c = int (of_char c) - 48"

definition py_isspace :: "char \<Rightarrow> bool" where
  "py_isspace c = (let n = (of_char c :: nat) in (9 \<le> n \<and> n \<le> 13) \<or> (28 \<le> n \<and> n \<le> 32))"

definition py_strip :: "string \<Rightarrow> string" where
  "py_strip s = rev (dropWhile py_isspace (rev (dropWhile py_isspace s)))"

text \<open>Decimal digits, with single underscores allowed between two digits.\<close>

fun digits_ok :: "string \<Rightarrow> bool" where
  "digits_ok [] = False"
| "digits_ok [c] = is_digit c"
| "digits_ok (c # d # cs) =
     (is_digit c \<and> (if d = CHR ''_'' then digits_ok cs else digits_ok (d # cs)))"

definition digits_value :: "string \<Rightarrow> int" where
  "digits_value s = foldl (\<lambda>acc c. if c = CHR ''_'' then acc else 10 * acc + digit_val c) 0 s"

definition int_of_str :: "string \<Rightarrow> py_error + int" where
  "int_of_str s =
     (case py_strip s of
        [] \<Rightarrow> Inl ValueError
      | c # cs \<Rightarrow>
          if c = CHR ''-'' then (if digits_ok cs then Inr (- digits_value cs) else Inl ValueError)
          else if c = CHR ''+'' then (if digits_ok cs then Inr (digits_value cs) else Inl ValueError)
          else if digits_ok (c # cs) then Inr (digits_value (c # cs))
          else Inl ValueError)"

fun py_int :: "pyval \<Rightarrow> py_error + int" where
  "py_int (PInt n) = Inr n"
| "py_int (PBool b) = Inr (if b then 1 else 0)"
| "py_int (PStr s) = int_of_str s"
| "py_int _ = Inl TypeError"

subsection \<open>\<^verbatim>\<open>str(x)\<close>\<close>

fun str_nat :: "nat \<Rightarrow> string" where
  "str_nat n =
     (if n < 10 then [char_of (48 + n)] else str_nat (n div 10) @ [char_of (48 + n mod 10)])"

definition str_int :: "int \<Rightarrow> string" where
  "str_int i = (if i < 0 then CHR ''-'' # str_nat (nat (- i)) else str_nat (nat i))"

definition hex_digit :: "nat \<Rightarrow> char" where
  "hex_digit n = (if n < 10 then char_of (48 + n) else char_of (87 + n))"

text \<open>
  \<^verbatim>\<open>repr\<close> of a string: double quotes when the text has a single quote and no double
  quote, single quotes otherwise; the quote and the backslash are escaped, control
  characters are written \<^verbatim>\<open>\t\<close>, \<^verbatim>\<open>\n\<close>, \<^verbatim>\<open>\r\<close> or \<^verbatim>\<open>\xhh\<close>.
\<close>

definition repr_char :: "char \<Rightarrow> char \<Rightarrow> string" where
  "repr_char q c =
     (let n = (of_char c :: nat) in
      if c = q \<or> c = CHR 0x5C then [CHR 0x5C, c]
      else if n = 9 then [CHR 0x5C, CHR ''t'']
      else if n = 10 then [CHR 0x5C, CHR ''n'']
      else if n = 13 then [CHR 0x5C, CHR ''r'']
      else if n < 32 \<or> n = 127 then [CHR 0x5C, CHR ''x'', hex_digit (n div 16), hex_digit (n mod 16)]
      else [c])"

definition repr_str :: "string \<Rightarrow> string" where
  "repr_str s =
     (let q = (if CHR 0x27 \<in> set s \<and> CHR 0x22 \<notin> set s then CHR 0x22 else CHR 0x27)
      in q # concat (map (repr_char q) s) @ [q])"

fun join :: "string \<Rightarrow> string list \<Rightarrow> string" where
  "join sep [] = []"
| "join sep [x] = x"
| "join sep (x # y # ys) = x @ sep @ join sep (y # ys)"

fun py_repr :: "pyval \<Rightarrow> string" where
  "py_repr PNone = ''None''"
| "py_repr (PBool b) = (if b then ''True'' else ''False'')"
| "py_repr (PInt n) = str_int n"
| "py_repr (PStr s) = repr_str s"
| "py_repr (PList xs) = ''['' @ join '', '' (map py_repr xs) @ '']''"
| "py_repr (PDict d) =
     ''{'' @ join '', '' (map (\<lambda>kv. repr_str (fst kv) @ '': '' @ py_repr (snd kv)) d) @ ''}''"

fun py_str :: "pyval \<Rightarrow> string" where
  "py_str (PStr s) = s"
| "py_str v = py_repr v"

section \<open>\<^verbatim>\<open>ResumeAgent._validate_and_clean\<close>\<close>

text \<open>
  \<^verbatim>\<open>data.get(section, {}).get(key, default)\<close>: the outer \<^verbatim>\<open>get\<close> is on the dictionary
  \<open>data\<close>, the inner one on whatever value \<open>data\<close> holds under \<open>section\<close>.
\<close>

definition sub_get :: "pydict \<Rightarrow> string \<Rightarrow> string \<Rightarrow> pyval \<Rightarrow> py_error + pyval" where
  "sub_get data section key dflt = py_get (dict_get data section (PDict [])) key dflt"

text \<open>
  A \<^verbatim>\<open>for\<close> loop that appends to a list: \<open>f\<close> gives what one iteration appends (nothing
  when the \<^verbatim>\<open>isinstance\<close> tests fail), and the first exception ends the loop.
\<close>

fun collect :: "('a \<Rightarrow> py_error + 'b list) \<Rightarrow> 'a list \<Rightarrow> py_error + 'b list" where
  "collect f [] = Inr []"
| "collect f (x # xs) =
     (case f x of
        Inl e \<Rightarrow> Inl e
      | Inr ys \<Rightarrow> (case collect f xs of Inl e \<Rightarrow> Inl e | Inr zs \<Rightarrow> Inr (ys @ zs)))"

definition for_each :: "pyval \<Rightarrow> (pyval \<Rightarrow> py_error + pyval list) \<Rightarrow> py_error + pyval list" where
  "for_each v f = py_bind (py_iter v) (collect f)"

fun clean_skill :: "pyval \<Rightarrow> py_error + pyval list" where
  "clean_skill (PDict skill) =
     py_bind (py_int (dict_get skill ''level'' (PInt 50)))
       (\<lambda>level. Inr [PDict [(''name'', dict_get skill ''name'' (PStr [])),
                             (''level'', PInt level)]])"
| "clean_skill (PStr skill) = Inr [PDict [(''name'', PStr skill), (''level'', PInt 70)]]"
| "clean_skill _ = Inr []"

fun clean_project :: "pyval \<Rightarrow> py_error + pyval list" where
  "clean_project (PDict proj) =
     Inr [PDict [(''title'', dict_get proj ''title'' (dict_get proj ''name'' (PStr []))),
                 (''tech_stack'',
                    dict_get proj ''tech_stack'' (dict_get proj ''technologies'' (PList []))),
                 (''points'', dict_get proj ''points'' (dict_get proj ''highlights'' (PList [])))]]"
| "clean_project _ = Inr []"

fun clean_experience :: "pyval \<Rightarrow> py_error + pyval list" where
  "clean_experience (PDict exp) =
     Inr [PDict [(''role'', dict_get exp ''role'' (dict_get exp ''title'' (PStr []))),
                 (''company'', dict_get exp ''company'' (PStr [])),
                 (''location'', dict_get exp ''location'' (PStr [])),
                 (''duration'', dict_get exp ''duration'' (PStr [])),
                 (''points'',
                    dict_get exp ''points'' (dict_get exp ''achievements'' (PList [])))]]"
| "clean_experience _ = Inr []"

fun clean_education :: "pyval \<Rightarrow> py_error + pyval list" where
  "clean_education (PDict edu) =
     Inr [PDict [(''degree'', dict_get edu ''degree'' (PStr [])),
                 (''institution'', dict_get edu ''institution'' (PStr [])),
                 (''year'', PStr (py_str (dict_get edu ''year'' (PStr [])))),
                 (''details'', dict_get edu ''details'' (PStr []))]]"
| "clean_education _ = Inr []"

definition validate_and_clean :: "pydict \<Rightarrow> pydict \<Rightarrow> py_error + pydict" where
  "validate_and_clean data user_profile =
     py_bind (sub_get data ''header'' ''name'' (dict_get user_profile ''name'' (PStr []))) (\<lambda>name.
     py_bind (sub_get data ''header'' ''title'' (PStr [])) (\<lambda>title.
     py_bind (sub_get data ''contact'' ''phone'' (dict_get user_profile ''phone'' (PStr []))) (\<lambda>phone.
     py_bind (sub_get data ''contact'' ''email'' (dict_get user_profile ''email'' (PStr []))) (\<lambda>email.
     py_bind (sub_get data ''contact'' ''address'' (dict_get user_profile ''location'' (PStr []))) (\<lambda>address.
     py_bind (sub_get data ''contact'' ''website'' (dict_get user_profile ''website'' (PStr []))) (\<lambda>website.
     py_bind (sub_get data ''contact'' ''linkedin'' (dict_get user_profile ''linkedin'' (PStr []))) (\<lambda>linkedin.
     py_bind (for_each (dict_get data ''skills'' (PList [])) clean_skill) (\<lambda>skills.
     py_bind (for_each (dict_get data ''projects'' (PList [])) clean_project) (\<lambda>projects.
     py_bind (for_each (dict_get data ''experience'' (PList [])) clean_experience) (\<lambda>experience.
     py_bind (for_each (dict_get data ''education'' (PList [])) clean_education) (\<lambda>education.
     Inr [(''header'', PDict [(''name'', name), (''title'', title)]),
          (''contact'', PDict [(''phone'', phone), (''email'', email), (''address'', address),
                               (''website'', website), (''linkedin'', linkedin)]),
          (''summary'', dict_get data ''summary'' (PStr [])),
          (''skills'', PList skills),
          (''projects'', PList projects),
          (''experience'', PList experience),
          (''education'', PList education)])))))))))))"


text \<open>
  A sufficient shape for the normalizer to return: \<^verbatim>\<open>header\<close> and \<^verbatim>\<open>contact\<close> are absent
  or mappings, the four sequences are absent or lists, and the level of every structured
  skill entry is absent or something \<^verbatim>\<open>int\<close> accepts.
\<close>

fun level_ok :: "pyval \<Rightarrow> bool" where
  "level_ok (PDict skill) =
     (case py_int (dict_get skill ''level'' (PInt 50)) of Inl e \<Rightarrow> False | Inr n \<Rightarrow> True)"
| "level_ok _ = True"

fun is_mapping :: "pyval \<Rightarrow> bool" where
  "is_mapping (PDict d) = True"
| "is_mapping _ = False"

fun is_sequence :: "pyval \<Rightarrow> bool" where
  "is_sequence (PList xs) = True"
| "is_sequence _ = False"

definition well_shaped :: "pydict \<Rightarrow> bool" where
  "well_shaped data =
     (is_mapping (dict_get data ''header'' (PDict [])) \<and>
      is_mapping (dict_get data ''contact'' (PDict [])) \<and>
      (case dict_get data ''skills'' (PList []) of PList xs \<Rightarrow> list_all level_ok xs | _ \<Rightarrow> False) \<and>
      is_sequence (dict_get data ''projects'' (PList [])) \<and>
      is_sequence (dict_get data ''experience'' (PList [])) \<and>
      is_sequence (dict_get data ''education'' (PList [])))"

section \<open>The resume document\<close>

text \<open>
  The strict schema of the agent's system prompt, which the template reads: a conformant
  document has every field, with these types.
\<close>

record resume_header =
  name :: string
  title :: string

record resume_contact =
  phone :: string
  email :: string
  address :: string
  website :: string
  linkedin :: string

record skill_entry =
  name :: string
  level :: int

record project_entry =
  title :: string
  tech_stack :: "string list"
  points :: "string list"

record experience_entry =
  role :: string
  company :: string
  location :: string
  duration :: string
  points :: "string list"

record education_entry =
  degree :: string
  institution :: string
  year :: string
  details :: string

record resume =
  header :: resume_header
  contact :: resume_contact
  summary :: string
  skills :: "skill_entry list"
  projects :: "project_entry list"
  experience :: "experience_entry list"
  education :: "education_entry list"

section \<open>From the normalized dictionary to the template's variables\<close>

text \<open>
  \<^verbatim>\<open>template.render(**resume_data)\<close> binds the keys of the dictionary to the variables of
  the template. \<open>to_resume\<close> reads a dictionary that conforms to the strict schema as the
  document the template sees, and is \<open>None\<close> on every other dictionary.
\<close>

fun as_str :: "pyval \<Rightarrow> string option" where
  "as_str (PStr s) = Some s"
| "as_str _ = None"

fun as_int :: "pyval \<Rightarrow> int option" where
  "as_int (PInt n) = Some n"
| "as_int _ = None"

fun as_dict :: "pyval \<Rightarrow> pydict option" where
  "as_dict (PDict d) = Some d"
| "as_dict _ = None"

fun as_list :: "pyval \<Rightarrow> pyval list option" where
  "as_list (PList xs) = Some xs"
| "as_list _ = None"

text \<open>All results, or \<open>None\<close> when one is missing.\<close>

fun those_all :: "'a option list \<Rightarrow> 'a list option" where
  "those_all [] = Some []"
| "those_all (None # xs) = None"
| "those_all (Some x # xs) = (case those_all xs of None \<Rightarrow> None | Some ys \<Rightarrow> Some (x # ys))"

definition str_field :: "pydict \<Rightarrow> string \<Rightarrow> string option" where
  "str_field d k = Option.bind (map_of d k) as_str"

definition str_list_field :: "pydict \<Rightarrow> string \<Rightarrow> string list option" where
  "str_list_field d k =
     Option.bind (Option.bind (map_of d k) as_list) (\<lambda>xs. those_all (map as_str xs))"

definition list_field :: "pydict \<Rightarrow> string \<Rightarrow> (pydict \<Rightarrow> 'a option) \<Rightarrow> 'a list option" where
  "list_field d k f =
     Option.bind (Option.bind (map_of d k) as_list)
       (\<lambda>xs. those_all (map (\<lambda>x. Option.bind (as_dict x) f) xs))"

definition to_header :: "pydict \<Rightarrow> resume_header option" where
  "to_header d =
     Option.bind (str_field d ''name'') (\<lambda>n.
     Option.bind (str_field d ''title'') (\<lambda>t.
     Some \<lparr>resume_header.name = n, resume_header.title = t\<rparr>))"

definition to_contact :: "pydict \<Rightarrow> resume_contact option" where
  "to_contact d =
     Option.bind (str_field d ''phone'') (\<lambda>p.
     Option.bind (str_field d ''email'') (\<lambda>e.
     Option.bind (str_field d ''address'') (\<lambda>a.
     Option.bind (str_field d ''website'') (\<lambda>w.
     Option.bind (str_field d ''linkedin'') (\<lambda>l.
     Some \<lparr>phone = p, email = e, address = a, website = w, linkedin = l\<rparr>)))))"

definition to_skill :: "pydict \<Rightarrow> skill_entry option" where
  "to_skill d =
     Option.bind (str_field d ''name'') (\<lambda>n.
     Option.bind (Option.bind (map_of d ''level'') as_int) (\<lambda>l.
     Some \<lparr>skill_entry.name = n, level = l\<rparr>))"

definition to_project :: "pydict \<Rightarrow> project_entry option" where
  "to_project d =
     Option.bind (str_field d ''title'') (\<lambda>t.
     Option.bind (str_list_field d ''tech_stack'') (\<lambda>ts.
     Option.bind (str_list_field d ''points'') (\<lambda>ps.
     Some \<lparr>project_entry.title = t, tech_stack = ts, project_entry.points = ps\<rparr>)))"

definition to_experience :: "pydict \<Rightarrow> experience_entry option" where
  "to_experience d =
     Option.bind (str_field d ''role'') (\<lambda>r.
     Option.bind (str_field d ''company'') (\<lambda>c.
     Option.bind (str_field d ''location'') (\<lambda>l.
     Option.bind (str_field d ''duration'') (\<lambda>du.
     Option.bind (str_list_field d ''points'') (\<lambda>ps.
     Some \<lparr>role = r, company = c, location = l, duration = du,
           experience_entry.points = ps\<rparr>)))))"

definition to_education :: "pydict \<Rightarrow> education_entry option" where
  "to_education d =
     Option.bind (str_field d ''degree'') (\<lambda>de.
     Option.bind (str_field d ''institution'') (\<lambda>i.
     Option.bind (str_field d ''year'') (\<lambda>y.
     Option.bind (str_field d ''details'') (\<lambda>dt.
     Some \<lparr>degree = de, institution = i, year = y, details = dt\<rparr>))))"

definition to_resume :: "pydict \<Rightarrow> resume option" where
  "to_resume d =
     Option.bind (Option.bind (Option.bind (map_of d ''header'') as_dict) to_header) (\<lambda>h.
     Option.bind (Option.bind (Option.bind (map_of d ''contact'') as_dict) to_contact) (\<lambda>c.
     Option.bind (str_field d ''summary'') (\<lambda>s.
     Option.bind (list_field d ''skills'' to_skill) (\<lambda>sk.
     Option.bind (list_field d ''projects'' to_project) (\<lambda>pr.
     Option.bind (list_field d ''experience'' to_experience) (\<lambda>ex.
     Option.bind (list_field d ''education'' to_education) (\<lambda>ed.
     Some \<lparr>header = h, contact = c, summary = s, skills = sk, projects = pr,
           experience = ex, education = ed\<rparr>)))))))"

section \<open>\<^verbatim>\<open>HTMLPDFGenerator.RESUME_TEMPLATE\<close>\<close>

text \<open>
  The template is rendered by a Jinja environment with its default settings. Rendering
  joins the pieces the template yields in order: the text between the tags is copied as it
  stands, white space included, except the one newline that ends the template;
  \<^verbatim>\<open>{{ e }}\<close> yields \<^verbatim>\<open>str(e)\<close> with no HTML escaping; \<^verbatim>\<open>{% if e %}\<close> tests Python
  truth, so an empty string or list is false. Each definition below is one block of the
  template: the list of its pieces, the text line by line.
\<close>

definition upper_char :: "char \<Rightarrow> char" where
  "upper_char c =
     (let n = (of_char c :: nat) in if 97 \<le> n \<and> n \<le> 122 then char_of (n - 32) else c)"

definition upper :: "string \<Rightarrow> string" where
  "upper s = map upper_char s"

text \<open>The style sheet: the text between \<^verbatim>\<open><style>\<close> and \<^verbatim>\<open></style>\<close>.\<close>

definition page_css :: string where
  \<open>page_css = concat
     [''\<newline>'',
      ''        @page {\<newline>'',
      ''            size: A4;\<newline>'',
      ''            margin: 0;\<newline>'',
      ''        }\<newline>'',
      ''        \<newline>'',
      ''        * {\<newline>'',
      ''            margin: 0;\<newline>'',
      ''            padding: 0;\<newline>'',
      ''            box-sizing: border-box;\<newline>'',
      ''        }\<newline>'',
      ''        \<newline>'',
      ''        body {\<newline>'',
      ''            font-family: Helvetica, Arial, sans-serif;\<newline>'',
      ''            font-size: 10pt;\<newline>'',
      ''            line-height: 1.4;\<newline>'',
      ''            color: #333333;\<newline>'',
      ''            background: white;\<newline>'',
      ''        }\<newline>'',
      ''        \<newline>'',
      ''        /* Header Bar - Teal Blue */\<newline>'',
      ''        .header {\<newline>'',
      ''            background-color: #2e6677;\<newline>'',
      ''            color: white;\<newline>'',
      ''            text-align: center;\<newline>'',
      ''            padding: 30px 20px;\<newline>'',
      ''            width: 100%;\<newline>'',
      ''        }\<newline>'',
      ''        \<newline>'',
      ''        .header h1 {\<newline>'',
      ''            font-size: 26pt;\<newline>'',
      ''            font-weight: normal;\<newline>'',
      ''            letter-spacing: 4px;\<newline>'',
      ''            margin-bottom: 8px;\<newline>'',
      ''            text-transform: uppercase;\<newline>'',
      ''            color: white;\<newline>'',
      ''        }\<newline>'',
      ''        \<newline>'',
      ''        .header h2 {\<newline>'',
      ''            font-size: 11pt;\<newline>'',
      ''            font-weight: normal;\<newline>'',
      ''            letter-spacing: 3px;\<newline>'',
      ''            text-transform: uppercase;\<newline>'',
      ''            color: #e0e0e0;\<newline>'',
      ''        }\<newline>'',
      ''        \<newline>'',
      ''        /* Main Container - Two Columns */\<newline>'',
      ''        .container {\<newline>'',
      ''            width: 100%;\<newline>'',
      ''        }\<newline>'',
      ''        \<newline>'',
      ''        .columns {\<newline>'',
      ''            width: 100%;\<newline>'',
      ''        }\<newline>'',
      ''        \<newline>'',
      ''        /* Left Column (35%) */\<newline>'',
      ''        .left-column {\<newline>'',
      ''            width: 35%;\<newline>'',
      ''            background-color: #f5f6f7;\<newline>'',
      ''            padding: 25px 20px;\<newline>'',
      ''            vertical-align: top;\<newline>'',
      ''        }\<newline>'',
      ''        \<newline>'',
      ''        /* Right Column (65%) */\<newline>'',
      ''        .right-column {\<newline>'',
      ''            width: 65%;\<newline>'',
      ''            padding: 25px 25px;\<newline>'',
      ''            background: white;\<newline>'',
      ''            vertical-align: top;\<newline>'',
      ''        }\<newline>'',
      ''        \<newline>'',
      ''        /* Section Headers */\<newline>'',
      ''        .section-title {\<newline>'',
      ''            font-size: 10pt;\<newline>'',
      ''            font-weight: bold;\<newline>'',
      ''            color: #2e6677;\<newline>'',
      ''            letter-spacing: 2px;\<newline>'',
      ''            text-transform: uppercase;\<newline>'',
      ''            margin-bottom: 12px;\<newline>'',
      ''            padding-bottom: 5px;\<newline>'',
      ''            border-bottom: 1.5px solid #2e6677;\<newline>'',
      ''        }\<newline>'',
      ''        \<newline>'',
      ''        .section {\<newline>'',
      ''            margin-bottom: 20px;\<newline>'',
      ''        }\<newline>'',
      ''        \<newline>'',
      ''        /* Contact Section */\<newline>'',
      ''        .contact-item {\<newline>'',
      ''            margin-bottom: 8px;\<newline>'',
      ''            font-size: 9pt;\<newline>'',
      ''        }\<newline>'',
      ''        \<newline>'',
      ''        .contact-label {\<newline>'',
      ''            color: #2e6677;\<newline>'',
      ''            font-weight: bold;\<newline>'',
      ''            display: inline-block;\<newline>'',
      ''            width: 55px;\<newline>'',
      ''        }\<newline>'',
      ''        \<newline>'',
      ''        .contact-value {\<newline>'',
      ''            color: #555555;\<newline>'',
      ''        }\<newline>'',
      ''        \<newline>'',
      ''        /* Summary */\<newline>'',
      ''        .summary-text {\<newline>'',
      ''            font-size: 9pt;\<newline>'',
      ''            color: #555555;\<newline>'',
      ''            font-style: italic;\<newline>'',
      ''            line-height: 1.5;\<newline>'',
      ''            text-align: justify;\<newline>'',
      ''        }\<newline>'',
      ''        \<newline>'',
      ''        /* Education */\<newline>'',
      ''        .education-item {\<newline>'',
      ''            margin-bottom: 15px;\<newline>'',
      ''        }\<newline>'',
      ''        \<newline>'',
      ''        .education-year {\<newline>'',
      ''            font-size: 9pt;\<newline>'',
      ''            color: #2e6677;\<newline>'',
      ''            font-style: italic;\<newline>'',
      ''            margin-bottom: 3px;\<newline>'',
      ''        }\<newline>'',
      ''        \<newline>'',
      ''        .education-degree {\<newline>'',
      ''            font-size: 10pt;\<newline>'',
      ''            font-weight: bold;\<newline>'',
      ''            color: #222222;\<newline>'',
      ''        }\<newline>'',
      ''        \<newline>'',
      ''        .education-honors {\<newline>'',
      ''            font-size: 9pt;\<newline>'',
      ''            color: #555555;\<newline>'',
      ''            font-style: italic;\<newline>'',
      ''        }\<newline>'',
      ''        \<newline>'',
      ''        .education-institution {\<newline>'',
      ''            font-size: 9pt;\<newline>'',
      ''            color: #666666;\<newline>'',
      ''        }\<newline>'',
      ''        \<newline>'',
      ''        /* Skills with Progress Bars */\<newline>'',
      ''        .skill-item {\<newline>'',
      ''            margin-bottom: 12px;\<newline>'',
      ''        }\<newline>'',
      ''        \<newline>'',
      ''        .skill-header {\<newline>'',
      ''            margin-bottom: 4px;\<newline>'',
      ''        }\<newline>'',
      ''        \<newline>'',
      ''        .skill-name {\<newline>'',
      ''            font-size: 9pt;\<newline>'',
      ''            color: #333333;\<newline>'',
      ''        }\<newline>'',
      ''        \<newline>'',
      ''        .skill-level {\<newline>'',
      ''            font-size: 9pt;\<newline>'',
      ''            color: #2e6677;\<newline>'',
      ''            font-weight: bold;\<newline>'',
      ''            float: right;\<newline>'',
      ''        }\<newline>'',
      ''        \<newline>'',
      ''        .skill-bar {\<newline>'',
      ''            background: #dddddd;\<newline>'',
      ''            height: 5px;\<newline>'',
      ''            width: 100%;\<newline>'',
      ''            clear: both;\<newline>'',
      ''        }\<newline>'',
      ''        \<newline>'',
      ''        .skill-fill {\<newline>'',
      ''            background: #2e6677;\<newline>'',
      ''            height: 5px;\<newline>'',
      ''        }\<newline>'',
      ''        \<newline>'',
      ''        /* Experience Section */\<newline>'',
      ''        .experience-item {\<newline>'',
      ''            margin-bottom: 18px;\<newline>'',
      ''        }\<newline>'',
      ''        \<newline>'',
      ''        .experience-duration {\<newline>'',
      ''            font-size: 9pt;\<newline>'',
      ''            color: #2e6677;\<newline>'',
      ''            font-weight: bold;\<newline>'',
      ''            margin-bottom: 2px;\<newline>'',
      ''        }\<newline>'',
      ''        \<newline>'',
      ''        .experience-role {\<newline>'',
      ''            font-size: 11pt;\<newline>'',
      ''            font-weight: bold;\<newline>'',
      ''            color: #222222;\<newline>'',
      ''            font-style: italic;\<newline>'',
      ''        }\<newline>'',
      ''        \<newline>'',
      ''        .experience-company {\<newline>'',
      ''            font-size: 9pt;\<newline>'',
      ''            color: #2e6677;\<newline>'',
      ''            margin-bottom: 6px;\<newline>'',
      ''        }\<newline>'',
      ''        \<newline>'',
      ''        .experience-points {\<newline>'',
      ''            margin-left: 15px;\<newline>'',
      ''            font-size: 9pt;\<newline>'',
      ''            color: #555555;\<newline>'',
      ''        }\<newline>'',
      ''        \<newline>'',
      ''        .experience-points li {\<newline>'',
      ''            margin-bottom: 4px;\<newline>'',
      ''            line-height: 1.4;\<newline>'',
      ''        }\<newline>'',
      ''        \<newline>'',
      ''        /* Projects Section */\<newline>'',
      ''        .project-item {\<newline>'',
      ''            margin-bottom: 15px;\<newline>'',
      ''        }\<newline>'',
      ''        \<newline>'',
      ''        .project-title {\<newline>'',
      ''            font-size: 10pt;\<newline>'',
      ''            font-weight: bold;\<newline>'',
      ''            color: #222222;\<newline>'',
      ''            margin-bottom: 3px;\<newline>'',
      ''        }\<newline>'',
      ''        \<newline>'',
      ''        .project-tech {\<newline>'',
      ''            font-size: 8pt;\<newline>'',
      ''            color: #2e6677;\<newline>'',
      ''            font-style: italic;\<newline>'',
      ''            margin-bottom: 5px;\<newline>'',
      ''        }\<newline>'',
      ''        \<newline>'',
      ''        .project-points {\<newline>'',
      ''            margin-left: 15px;\<newline>'',
      ''            font-size: 9pt;\<newline>'',
      ''            color: #555555;\<newline>'',
      ''        }\<newline>'',
      ''        \<newline>'',
      ''        .project-points li {\<newline>'',
      ''            margin-bottom: 3px;\<newline>'',
      ''            line-height: 1.4;\<newline>'',
      ''        }\<newline>'',
      ''    '']\<close>

text \<open>The five rows of the Contact section differ in their label and value only.\<close>

definition contact_item :: "string \<Rightarrow> string \<Rightarrow> string" where
  \<open>contact_item label v =
     (if v = [] then []
      else concat
        [''\<newline>'',
         ''                    <div class="contact-item">\<newline>'',
         ''                        <span class="contact-label">'', label,
         ''</span>\<newline>'',
         ''                        <span class="contact-value">'', v,
         ''</span>\<newline>'',
         ''                    </div>\<newline>'',
         ''                    ''])\<close>

definition contact_rows :: "resume_contact \<Rightarrow> string" where
  \<open>contact_rows c = concat
     [contact_item ''phone'' (phone c),
      ''\<newline>'',
      ''                    '',
      contact_item ''email'' (email c),
      ''\<newline>'',
      ''                    '',
      contact_item ''address'' (address c),
      ''\<newline>'',
      ''                    '',
      contact_item ''website'' (website c),
      ''\<newline>'',
      ''                    '',
      contact_item ''linkedin'' (linkedin c)]\<close>

definition summary_section :: "string \<Rightarrow> string" where
  \<open>summary_section s =
     (if s = [] then []
      else concat
        [''\<newline>'',
         ''                <div class="section">\<newline>'',
         ''                    <div class="section-title">Summary</div>\<newline>'',
         ''                    <p class="summary-text">'', s,
         ''</p>\<newline>'',
         ''                </div>\<newline>'',
         ''                ''])\<close>

definition education_item :: "education_entry \<Rightarrow> string" where
  \<open>education_item edu = concat
     [''\<newline>'',
      ''                    <div class="education-item">\<newline>'',
      ''                        <div class="education-year">'', year edu,
      ''</div>\<newline>'',
      ''                        <div class="education-degree">'', degree edu,
      ''</div>\<newline>'',
      ''                        '',
      (if details edu = [] then []
       else concat
         [''\<newline>'',
          ''                        <div class="education-honors">'', details edu,
          ''</div>\<newline>'',
          ''                        '']),
      ''\<newline>'',
      ''                        <div class="education-institution">'', institution edu,
      ''</div>\<newline>'',
      ''                    </div>\<newline>'',
      ''                    '']\<close>

definition education_section :: "education_entry list \<Rightarrow> string" where
  \<open>education_section es =
     (if es = [] then []
      else concat
        [''\<newline>'',
         ''                <div class="section">\<newline>'',
         ''                    <div class="section-title">Education</div>\<newline>'',
         ''                    '',
         concat (map education_item es),
         ''\<newline>'',
         ''                </div>\<newline>'',
         ''                ''])\<close>

definition skill_item :: "skill_entry \<Rightarrow> string" where
  \<open>skill_item skill = concat
     [''\<newline>'',
      ''                    <div class="skill-item">\<newline>'',
      ''                        <div class="skill-header">\<newline>'',
      ''                            <span class="skill-name">'', skill_entry.name skill,
      ''</span>\<newline>'',
      ''                            <span class="skill-level">'', str_int (level skill),
      ''%</span>\<newline>'',
      ''                        </div>\<newline>'',
      ''                        <div class="skill-bar">\<newline>'',
      ''                            <div class="skill-fill" style="width: '', str_int (level skill),
      ''%;"></div>\<newline>'',
      ''                        </div>\<newline>'',
      ''                    </div>\<newline>'',
      ''                    '']\<close>

definition skills_section :: "skill_entry list \<Rightarrow> string" where
  \<open>skills_section ss =
     (if ss = [] then []
      else concat
        [''\<newline>'',
         ''                <div class="section">\<newline>'',
         ''                    <div class="section-title">Relevant Skills</div>\<newline>'',
         ''                    '',
         concat (map skill_item ss),
         ''\<newline>'',
         ''                </div>\<newline>'',
         ''                ''])\<close>

text \<open>One bullet of a \<^verbatim>\<open>points\<close> list; the experience and the project loop have the same body.\<close>

definition point_item :: "string \<Rightarrow> string" where
  \<open>point_item point = concat
     [''\<newline>'',
      ''                            <li>'', point,
      ''</li>\<newline>'',
      ''                            '']\<close>

definition experience_item :: "experience_entry \<Rightarrow> string" where
  \<open>experience_item exp = concat
     [''\<newline>'',
      ''                    <div class="experience-item">\<newline>'',
      ''                        <div class="experience-duration">'', duration exp,
      ''</div>\<newline>'',
      ''                        <div class="experience-role">'', role exp,
      ''</div>\<newline>'',
      ''                        <div class="experience-company">'', company exp,
      (if location exp = [] then [] else concat ['', '', location exp]),
      ''</div>\<newline>'',
      ''                        '',
      (if experience_entry.points exp = [] then []
       else concat
         [''\<newline>'',
          ''                        <ul class="experience-points">\<newline>'',
          ''                            '',
          concat (map point_item (experience_entry.points exp)),
          ''\<newline>'',
          ''                        </ul>\<newline>'',
          ''                        '']),
      ''\<newline>'',
      ''                    </div>\<newline>'',
      ''                    '']\<close>

definition experience_section :: "experience_entry list \<Rightarrow> string" where
  \<open>experience_section es =
     (if es = [] then []
      else concat
        [''\<newline>'',
         ''                <div class="section">\<newline>'',
         ''                    <div class="section-title">Professional Experience</div>\<newline>'',
         ''                    '',
         concat (map experience_item es),
         ''\<newline>'',
         ''                </div>\<newline>'',
         ''                ''])\<close>

definition project_item :: "project_entry \<Rightarrow> string" where
  \<open>project_item project = concat
     [''\<newline>'',
      ''                    <div class="project-item">\<newline>'',
      ''                        <div class="project-title">'', project_entry.title project,
      ''</div>\<newline>'',
      ''                        '',
      (if tech_stack project = [] then []
       else concat
         [''\<newline>'',
          ''                        <div class="project-tech">'', join '', '' (tech_stack project),
          ''</div>\<newline>'',
          ''                        '']),
      ''\<newline>'',
      ''                        '',
      (if project_entry.points project = [] then []
       else concat
         [''\<newline>'',
          ''                        <ul class="project-points">\<newline>'',
          ''                            '',
          concat (map point_item (project_entry.points project)),
          ''\<newline>'',
          ''                        </ul>\<newline>'',
          ''                        '']),
      ''\<newline>'',
      ''                    </div>\<newline>'',
      ''                    '']\<close>

definition projects_section :: "project_entry list \<Rightarrow> string" where
  \<open>projects_section ps =
     (if ps = [] then []
      else concat
        [''\<newline>'',
         ''                <div class="section">\<newline>'',
         ''                    <div class="section-title">Projects</div>\<newline>'',
         ''                    '',
         concat (map project_item ps),
         ''\<newline>'',
         ''                </div>\<newline>'',
         ''                ''])\<close>

text \<open>\<^verbatim>\<open>self.template.render(**resume_data)\<close> on a conformant document.\<close>

definition render :: "resume \<Rightarrow> string" where
  \<open>render doc = concat
     [''\<newline>'',
      ''<!DOCTYPE html>\<newline>'',
      ''<html lang="en">\<newline>'',
      ''<head>\<newline>'',
      ''    <meta charset="UTF-8">\<newline>'',
      ''    <title>'', resume_header.name (header doc),
      '' - Resume</title>\<newline>'',
      ''    <style>'', page_css,
      ''</style>\<newline>'',
      ''</head>\<newline>'',
      ''<body>\<newline>'',
      ''    <!-- Header -->\<newline>'',
      ''    <div class="header">\<newline>'',
      ''        <h1>'', upper (resume_header.name (header doc)),
      ''</h1>\<newline>'',
      ''        <h2>'', upper (resume_header.title (header doc)),
      ''</h2>\<newline>'',
      ''    </div>\<newline>'',
      ''    \<newline>'',
      ''    <!-- Main Content - Two Columns using Table -->\<newline>'',
      ''    <table class="columns" cellpadding="0" cellspacing="0">\<newline>'',
      ''        <tr>\<newline>'',
      ''            <!-- Left Column -->\<newline>'',
      ''            <td class="left-column">\<newline>'',
      ''                <!-- Contact -->\<newline>'',
      ''                <div class="section">\<newline>'',
      ''                    <div class="section-title">Contact</div>\<newline>'',
      ''                    '',
      contact_rows (contact doc),
      ''\<newline>'',
      ''                </div>\<newline>'',
      ''                \<newline>'',
      ''                <!-- Summary -->\<newline>'',
      ''                '',
      summary_section (summary doc),
      ''\<newline>'',
      ''                \<newline>'',
      ''                <!-- Education -->\<newline>'',
      ''                '',
      education_section (education doc),
      ''\<newline>'',
      ''                \<newline>'',
      ''                <!-- Skills -->\<newline>'',
      ''                '',
      skills_section (skills doc),
      ''\<newline>'',
      ''            </td>\<newline>'',
      ''            \<newline>'',
      ''            <!-- Right Column -->\<newline>'',
      ''            <td class="right-column">\<newline>'',
      ''                <!-- Professional Experience -->\<newline>'',
      ''                '',
      experience_section (experience doc),
      ''\<newline>'',
      ''                \<newline>'',
      ''                <!-- Projects -->\<newline>'',
      ''                '',
      projects_section (projects doc),
      ''\<newline>'',
      ''            </td>\<newline>'',
      ''        </tr>\<newline>'',
      ''    </table>\<newline>'',
      ''</body>\<newline>'',
      ''</html>'']\<close>


section \<open>\<^verbatim>\<open>HTMLPDFGenerator\<close>: PDF generation and validation\<close>

text \<open>
  What the generator takes from its environment: the output directory, the clock
  (\<^verbatim>\<open>datetime.now().strftime("%Y%m%d_%H%M%S")\<close>), whether \<^verbatim>\<open>open(path, "wb")\<close> raises
  (and with what message), and the rasterizer \<^verbatim>\<open>pisa.CreatePDF\<close>. The rasterizer either
  raises, or returns a status whose \<^verbatim>\<open>err\<close> counts the errors it met; in both cases it may
  already have written bytes to its destination.
\<close>

datatype pisa_result =
    PisaRaises string string
  | PisaStatus string int

record pdf_env =
  output_dir :: string
  timestamp :: string
  open_error :: "string \<Rightarrow> string option"
  create_pdf :: "string \<Rightarrow> pisa_result"

text \<open>The dictionary \<^verbatim>\<open>generate_pdf\<close> returns; \<^verbatim>\<open>file_path\<close> is \<^verbatim>\<open>None\<close> on an error.\<close>

record pdf_response =
  status :: string
  message :: string
  file_path :: "string option"
  filename :: "string option"

definition lower_char :: "char \<Rightarrow> char" where
  "lower_char c =
     (let n = (of_char c :: nat) in if 65 \<le> n \<and> n \<le> 90 then char_of (n + 32) else c)"

definition isalnum :: "char \<Rightarrow> bool" where
  "isalnum c =
     (let n = (of_char c :: nat) in
      (48 \<le> n \<and> n \<le> 57) \<or> (65 \<le> n \<and> n \<le> 90) \<or> (97 \<le> n \<and> n \<le> 122))"

definition name_slug :: "string \<Rightarrow> string" where
  "name_slug n = map (\<lambda>c. if isalnum c then c else CHR ''_'') (map lower_char n)"

text \<open>\<^verbatim>\<open>os.path.join\<close> of two components, on POSIX.\<close>

definition path_join :: "string \<Rightarrow> string \<Rightarrow> string" where
  "path_join a b =
     (if b \<noteq> [] \<and> hd b = CHR ''/'' then b
      else if a = [] \<or> last a = CHR ''/'' then a @ b
      else a @ ''/'' @ b)"

text \<open>
  The file name \<^verbatim>\<open>generate_pdf\<close> writes to: the one given, or when none (or the empty
  one) is given, the lower-cased name of the header with every character that is not
  alphanumeric replaced by an underscore, followed by the time stamp; \<^verbatim>\<open>.pdf\<close> is added
  when the name does not end with it.
\<close>

definition pdf_filename :: "pdf_env \<Rightarrow> resume \<Rightarrow> string option \<Rightarrow> string" where
  "pdf_filename env resume_data filename_arg =
     (let generated =
            name_slug (resume_header.name (header resume_data)) @ ''_'' @ timestamp env @ ''.pdf'';
          filename = (case filename_arg of
                        None \<Rightarrow> generated
                      | Some f \<Rightarrow> if f = [] then generated else f)
      in if suffix ''.pdf'' filename then filename else filename @ ''.pdf'')"

text \<open>
  \<^verbatim>\<open>generate_pdf\<close> on a conformant document, so that rendering the template raises
  nothing; the files on disk are a map from paths to contents. The \<^verbatim>\<open>try\<close> block turns
  every exception into an error response. The file is opened, and so created, before the
  rasterizer runs: whatever the rasterizer wrote stays on disk also when the response is
  an error. The argument \<^verbatim>\<open>user_id\<close> is never read.
\<close>

definition generate_pdf ::
  "pdf_env \<Rightarrow> (string \<rightharpoonup> string) \<Rightarrow> resume \<Rightarrow> string option
     \<Rightarrow> pdf_response \<times> (string \<rightharpoonup> string)" where
  "generate_pdf env disk resume_data filename_arg =
     (let filename = pdf_filename env resume_data filename_arg;
          filepath = path_join (output_dir env) filename;
          html_content = render resume_data
      in case open_error env filepath of
           Some e \<Rightarrow>
             (\<lparr>status = ''error'', message = ''Failed to generate PDF: '' @ e,
               file_path = None, filename = None\<rparr>, disk)
         | None \<Rightarrow>
             (case create_pdf env html_content of
                PisaRaises e written \<Rightarrow>
                  (\<lparr>status = ''error'', message = ''Failed to generate PDF: '' @ e,
                    file_path = None, filename = None\<rparr>, disk(filepath \<mapsto> written))
              | PisaStatus written err \<Rightarrow>
                  if err \<noteq> 0
                  then (\<lparr>status = ''error'',
                         message = ''PDF generation had errors: '' @ str_int err,
                         file_path = None, filename = None\<rparr>, disk(filepath \<mapsto> written))
                  else (\<lparr>status = ''success'', message = ''Resume PDF generated successfully'',
                         file_path = Some filepath, filename = Some filename\<rparr>,
                        disk(filepath \<mapsto> written))))"

text \<open>
  \<^verbatim>\<open>generate_pdf_bytes\<close>: the rasterizer writes into a buffer and the buffer is returned;
  the status \<^verbatim>\<open>pisa.CreatePDF\<close> returns is dropped. An exception of the rasterizer is not
  caught here.
\<close>

definition generate_pdf_bytes :: "pdf_env \<Rightarrow> resume \<Rightarrow> string + string" where
  "generate_pdf_bytes env resume_data =
     (case create_pdf env (render resume_data) of
        PisaRaises e written \<Rightarrow> Inl e
      | PisaStatus written err \<Rightarrow> Inr written)"

text \<open>\<^verbatim>\<open>validate_resume_data\<close>: the keys of \<^verbatim>\<open>required_structure\<close>, in its order.\<close>

definition required_structure :: "string list" where
  "required_structure = [''header'', ''contact'', ''summary'', ''skills'', ''experience'', ''education'']"

record validation =
  valid :: bool
  missing_fields :: "string list"
  validation_message :: string

definition validate_resume_data :: "pydict \<Rightarrow> validation" where
  "validate_resume_data data =
     (let missing = filter (\<lambda>field. map_of data field = None) required_structure
      in \<lparr>valid = (length missing = 0),
          missing_fields = missing,
          validation_message =
            (if length missing = 0 then ''Valid resume data''
             else ''Missing fields: '' @ py_repr (PList (map PStr missing)))\<rparr>)"

section \<open>Markup in the rendered output\<close>

text \<open>
  \<open>occ w s\<close> counts the places of the text \<open>s\<close> at which the text \<open>w\<close> starts; \<open>w\<close> occurs
  in \<open>s\<close> (\<open>sublist w s\<close>) exactly when the count is not zero.
\<close>

fun occ :: "string \<Rightarrow> string \<Rightarrow> nat" where
  "occ w [] = 0"
| "occ w (x # xs) = (if prefix w (x # xs) then 1 else 0) + occ w xs"

text \<open>
  Every section header and every block the loops write opens with \<^verbatim>\<open><div class="\<close>. A text
  is plain when that opening does not occur in it, and a document when its text fields are
  plain. The template writes field values into the page as they are, without escaping, so
  a value that is not plain could carry the markup of a header itself. The title of the
  header is only written in upper case, where the opening cannot occur, so nothing is
  asked of it; the levels of the skills are integers.
\<close>

definition div_class :: string where
  \<open>div_class = ''<div class="''\<close>

definition plain :: "string \<Rightarrow> bool" where
  "plain s = (\<not> sublist div_class s)"

definition plain_resume :: "resume \<Rightarrow> bool" where
  "plain_resume doc =
     (plain (resume_header.name (header doc)) \<and>
      plain (phone (contact doc)) \<and> plain (email (contact doc)) \<and> plain (address (contact doc)) \<and>
      plain (website (contact doc)) \<and> plain (linkedin (contact doc)) \<and>
      plain (summary doc) \<and>
      list_all (\<lambda>s. plain (skill_entry.name s)) (skills doc) \<and>
      list_all (\<lambda>p. plain (project_entry.title p) \<and> list_all plain (tech_stack p) \<and>
                      list_all plain (project_entry.points p)) (projects doc) \<and>
      list_all (\<lambda>e. plain (role e) \<and> plain (company e) \<and> plain (location e) \<and>
                      plain (duration e) \<and> list_all plain (experience_entry.points e)) (experience doc) \<and>
      list_all (\<lambda>e. plain (degree e) \<and> plain (institution e) \<and> plain (year e) \<and>
                      plain (details e)) (education doc))"

text \<open>
  The section headers and the openings of the blocks the loops write, as the template has
  them.
\<close>

definition marks :: "string list" where
  \<open>marks =
     [''<div class="section-title">Summary</div>'',
      ''<div class="section-title">Education</div>'',
      ''<div class="section-title">Relevant Skills</div>'',
      ''<div class="section-title">Professional Experience</div>'',
      ''<div class="section-title">Projects</div>'',
      ''<div class="education-item">'',
      ''<div class="skill-item">'',
      ''<div class="experience-item">'',
      ''<div class="project-item">'']\<close>

text \<open>
  \<open>nopend w s\<close>: no end of \<open>s\<close> is a beginning of \<open>w\<close> that the text after \<open>s\<close> could
  complete. Then the occurrences of \<open>w\<close> in \<open>s @ t\<close> are those in \<open>s\<close> and those in \<open>t\<close>.
\<close>

fun proper_prefix :: "string \<Rightarrow> string \<Rightarrow> bool" where
  "proper_prefix [] [] = False"
| "proper_prefix [] (y # ys) = True"
| "proper_prefix (x # xs) [] = False"
| "proper_prefix (x # xs) (y # ys) = (x = y \<and> proper_prefix xs ys)"

fun nopend :: "string \<Rightarrow> string \<Rightarrow> bool" where
  "nopend w [] = True"
| "nopend w (x # xs) = (\<not> proper_prefix (x # xs) w \<and> nopend w xs)"

text \<open>
  A plain value can still end with a beginning of \<^verbatim>\<open><div class="\<close>, such as \<^verbatim>\<open><div\<close>. The
  text \<open>y\<close> that follows it is a guard when it goes on with none of the endings of
  \<^verbatim>\<open><div class="\<close>: \<open>incomparable v y\<close> says that \<open>v\<close> and \<open>y\<close> differ at a place both have, so
  neither begins the other, whatever follows.
\<close>

fun incomparable :: "string \<Rightarrow> string \<Rightarrow> bool" where
  "incomparable (x # xs) (y # ys) = (x \<noteq> y \<or> incomparable xs ys)"
| "incomparable [] ys = False"
| "incomparable (x # xs) [] = False"

fun tails_ne :: "string \<Rightarrow> string list" where
  "tails_ne [] = []"
| "tails_ne (x # xs) = (x # xs) # tails_ne xs"

definition guard :: "string \<Rightarrow> bool" where
  "guard y = list_all (\<lambda>v. incomparable v y) (tails_ne (tl div_class))"

section \<open>Properties of the normalizer\<close>

lemma py_bind_Inr: "py_bind m f = Inr y \<longleftrightarrow> (\<exists>x. m = Inr x \<and> f x = Inr y)"
  by (cases m) (simp_all add: py_bind_def)

lemma dict_get_head: "dict_get ((k, v) # d) k dflt = v"
  by (simp add: dict_get_def)

lemma dict_get_skip: "k' \<noteq> k \<Longrightarrow> dict_get ((k', v) # d) k dflt = dict_get d k dflt"
  by (simp add: dict_get_def)

lemma dict_get_Nil: "dict_get [] k dflt = dflt"
  by (simp add: dict_get_def)

subsection \<open>Inputs on which the normalizer raises\<close>

text \<open>
  Claim C1 says that \<^verbatim>\<open>_validate_and_clean\<close> returns a document for every input
  mapping. It does not: a \<^verbatim>\<open>header\<close> that is not a mapping has no \<^verbatim>\<open>get\<close>
  (\<^verbatim>\<open>AttributeError\<close>), a \<^verbatim>\<open>skills\<close> value of \<^verbatim>\<open>None\<close> cannot be iterated
  (\<^verbatim>\<open>TypeError\<close>), and a skill level that is not a number cannot be converted
  (\<^verbatim>\<open>ValueError\<close>).
\<close>

theorem validate_and_clean_raises:
  "validate_and_clean [(''header'', PStr ''Jane Doe'')] [] = Inl AttributeError
   \<and> validate_and_clean [(''skills'', PNone)] [] = Inl TypeError
   \<and> validate_and_clean
        [(''skills'', PList [PDict [(''name'', PStr ''Python''), (''level'', PStr ''expert'')]])] []
       = Inl ValueError"
  by code_simp

text \<open>
  Where it returns, it hands on what it found: a summary that is not a string stays in the
  document, which then is not a document of the strict schema.
\<close>

theorem validate_and_clean_keeps_wrong_types:
  "validate_and_clean [(''summary'', PInt 5)] []
   = Inr [(''header'', PDict [(''name'', PStr []), (''title'', PStr [])]),
          (''contact'', PDict [(''phone'', PStr []), (''email'', PStr []), (''address'', PStr []),
                               (''website'', PStr []), (''linkedin'', PStr [])]),
          (''summary'', PInt 5),
          (''skills'', PList []), (''projects'', PList []), (''experience'', PList []),
          (''education'', PList [])]
   \<and> to_resume [(''header'', PDict [(''name'', PStr []), (''title'', PStr [])]),
          (''contact'', PDict [(''phone'', PStr []), (''email'', PStr []), (''address'', PStr []),
                               (''website'', PStr []), (''linkedin'', PStr [])]),
          (''summary'', PInt 5),
          (''skills'', PList []), (''projects'', PList []), (''experience'', PList []),
          (''education'', PList [])] = None"
  by code_simp

subsection \<open>Inputs on which the normalizer returns\<close>

lemma collect_total:
  assumes "\<And>x. x \<in> set xs \<Longrightarrow> \<exists>ys. f x = Inr ys"
  shows "\<exists>zs. collect f xs = Inr zs"
  using assms
proof (induction xs)
  case Nil
  then show ?case by simp
next
  case (Cons a xs)
  then obtain ys zs where "f a = Inr ys" "collect f xs = Inr zs"
    by (metis list.set_intros(1) list.set_intros(2))
  then show ?case by simp
qed

lemma clean_project_total: "\<exists>ys. clean_project x = Inr ys"
  by (cases x) simp_all

lemma clean_experience_total: "\<exists>ys. clean_experience x = Inr ys"
  by (cases x) simp_all

lemma clean_education_total: "\<exists>ys. clean_education x = Inr ys"
  by (cases x) simp_all

lemma clean_skill_total: "level_ok x \<Longrightarrow> \<exists>ys. clean_skill x = Inr ys"
  by (cases x) (auto simp: py_bind_def split: sum.splits)

lemma for_each_list_total:
  assumes "is_sequence v" and "\<And>x. \<exists>ys. f x = Inr ys"
  shows "\<exists>zs. for_each v f = Inr zs"
proof -
  from assms(1) obtain xs where "v = PList xs" by (cases v) simp_all
  with collect_total[of xs f] assms(2) show ?thesis by (simp add: for_each_def py_bind_def)
qed

lemma sub_get_total: "is_mapping (dict_get data section (PDict [])) \<Longrightarrow> \<exists>v. sub_get data section key dflt = Inr v"
  by (cases "dict_get data section (PDict [])") (simp_all add: sub_get_def)

text \<open>
  On a well-shaped mapping, whatever the fallback profile, the normalizer returns a
  document with the seven top-level fields, in the order of the schema.
\<close>

theorem validate_and_clean_returns_on_well_shaped:
  assumes "well_shaped data"
  shows "\<exists>out. validate_and_clean data user_profile = Inr out \<and>
           map fst out = [''header'', ''contact'', ''summary'', ''skills'', ''projects'',
                          ''experience'', ''education'']"
proof -
  from assms have h: "is_mapping (dict_get data ''header'' (PDict []))"
    and c: "is_mapping (dict_get data ''contact'' (PDict []))"
    and p: "is_sequence (dict_get data ''projects'' (PList []))"
    and e: "is_sequence (dict_get data ''experience'' (PList []))"
    and d: "is_sequence (dict_get data ''education'' (PList []))"
    by (simp_all add: well_shaped_def)
  from assms obtain xs where s: "dict_get data ''skills'' (PList []) = PList xs" "list_all level_ok xs"
    by (auto simp: well_shaped_def split: pyval.splits)
  have "\<exists>zs. collect clean_skill xs = Inr zs"
    using s(2) by (intro collect_total clean_skill_total) (simp add: list_all_iff)
  then obtain sk where sk: "for_each (dict_get data ''skills'' (PList [])) clean_skill = Inr sk"
    using s(1) by (auto simp: for_each_def py_bind_def)
  from for_each_list_total[of _ clean_project, OF p clean_project_total]
  obtain pr where pr: "for_each (dict_get data ''projects'' (PList [])) clean_project = Inr pr" by blast
  from for_each_list_total[of _ clean_experience, OF e clean_experience_total]
  obtain ex where ex: "for_each (dict_get data ''experience'' (PList [])) clean_experience = Inr ex" by blast
  from for_each_list_total[of _ clean_education, OF d clean_education_total]
  obtain ed where ed: "for_each (dict_get data ''education'' (PList [])) clean_education = Inr ed" by blast
  from h obtain hd where hd: "dict_get data ''header'' (PDict []) = PDict hd"
    by (cases "dict_get data ''header'' (PDict [])") simp_all
  from c obtain cd where cd: "dict_get data ''contact'' (PDict []) = PDict cd"
    by (cases "dict_get data ''contact'' (PDict [])") simp_all
  show ?thesis
    by (simp add: validate_and_clean_def sub_get_def hd cd sk pr ex ed py_bind_def)
qed

theorem validate_and_clean_returns_on_well_shaped_witness:
  "well_shaped [(''header'', PDict [(''name'', PStr ''Jane Doe'')]), (''skills'', PList [PStr ''Python''])]
   \<and> (\<exists>out. validate_and_clean
          [(''header'', PDict [(''name'', PStr ''Jane Doe'')]), (''skills'', PList [PStr ''Python''])]
          [(''email'', PStr ''jane@x.com'')] = Inr out \<and>
        map fst out = [''header'', ''contact'', ''summary'', ''skills'', ''projects'',
                       ''experience'', ''education''])"
proof -
  have w: "well_shaped [(''header'', PDict [(''name'', PStr ''Jane Doe'')]),
                        (''skills'', PList [PStr ''Python''])]"
    by code_simp
  from validate_and_clean_returns_on_well_shaped[OF w] w show ?thesis by blast
qed

subsection \<open>Idempotence\<close>

lemma collect_fixed:
  assumes "collect f xs = Inr ys"
    and "\<And>x zs y. f x = Inr zs \<Longrightarrow> y \<in> set zs \<Longrightarrow> f y = Inr [y]"
  shows "collect f ys = Inr ys"
  using assms(1)
proof (induction xs arbitrary: ys)
  case Nil
  then show ?case by simp
next
  case (Cons x xs)
  from Cons.prems obtain zs ws where fx: "f x = Inr zs" and rest: "collect f xs = Inr ws"
    and ys: "ys = zs @ ws"
    by (auto split: sum.splits)
  have ws: "collect f ws = Inr ws" using Cons.IH rest by blast
  have "\<And>us. set us \<subseteq> set zs \<Longrightarrow> collect f (us @ ws) = Inr (us @ ws)"
  proof -
    fix us show "set us \<subseteq> set zs \<Longrightarrow> collect f (us @ ws) = Inr (us @ ws)"
    proof (induction us)
      case Nil then show ?case using ws by simp
    next
      case (Cons u us)
      then have "f u = Inr [u]" using assms(2)[OF fx] by simp
      with Cons show ?case by simp
    qed
  qed
  then show ?case using ys by blast
qed

lemma clean_skill_fixed: "clean_skill x = Inr zs \<Longrightarrow> y \<in> set zs \<Longrightarrow> clean_skill y = Inr [y]"
  by (cases x) (auto simp: py_bind_Inr dict_get_head dict_get_skip)

lemma clean_project_fixed: "clean_project x = Inr zs \<Longrightarrow> y \<in> set zs \<Longrightarrow> clean_project y = Inr [y]"
  by (cases x) (auto simp: dict_get_head dict_get_skip)

lemma clean_experience_fixed: "clean_experience x = Inr zs \<Longrightarrow> y \<in> set zs \<Longrightarrow> clean_experience y = Inr [y]"
  by (cases x) (auto simp: dict_get_head dict_get_skip)

lemma clean_education_fixed: "clean_education x = Inr zs \<Longrightarrow> y \<in> set zs \<Longrightarrow> clean_education y = Inr [y]"
  by (cases x) (auto simp: dict_get_head dict_get_skip)

lemma for_each_fixed:
  assumes "for_each v f = Inr ys"
    and "\<And>x zs y. f x = Inr zs \<Longrightarrow> y \<in> set zs \<Longrightarrow> f y = Inr [y]"
  shows "for_each (PList ys) f = Inr ys"
proof -
  from assms(1) obtain xs where "collect f xs = Inr ys"
    by (auto simp: for_each_def py_bind_Inr)
  then have "collect f ys = Inr ys" using assms(2) by (rule collect_fixed)
  then show ?thesis by (simp add: for_each_def py_bind_def)
qed

text \<open>
  Claim C6. Whenever \<^verbatim>\<open>_validate_and_clean(raw, p)\<close> returns a document, feeding that
  document back with the same fallback profile returns it unchanged:
  \<^verbatim>\<open>_validate_and_clean(_validate_and_clean(raw, p), p) = _validate_and_clean(raw, p)\<close>.
  The second run reads every header and contact field from the document itself, each loop
  finds only entries of the shape it builds, \<^verbatim>\<open>int\<close> of an integer and \<^verbatim>\<open>str\<close> of a
  string change nothing.
\<close>

theorem validate_and_clean_idempotent:
  assumes "validate_and_clean raw p = Inr out"
  shows "validate_and_clean out p = Inr out"
proof -
  from assms obtain name title phone email address website linkedin skills projects experience education
    where sk: "for_each (dict_get raw ''skills'' (PList [])) clean_skill = Inr skills"
      and pr: "for_each (dict_get raw ''projects'' (PList [])) clean_project = Inr projects"
      and ex: "for_each (dict_get raw ''experience'' (PList [])) clean_experience = Inr experience"
      and ed: "for_each (dict_get raw ''education'' (PList [])) clean_education = Inr education"
      and out: "out = [(''header'', PDict [(''name'', name), (''title'', title)]),
          (''contact'', PDict [(''phone'', phone), (''email'', email), (''address'', address),
                               (''website'', website), (''linkedin'', linkedin)]),
          (''summary'', dict_get raw ''summary'' (PStr [])),
          (''skills'', PList skills),
          (''projects'', PList projects),
          (''experience'', PList experience),
          (''education'', PList education)]"
    unfolding validate_and_clean_def py_bind_Inr by blast
  have sk': "for_each (PList skills) clean_skill = Inr skills"
    using sk clean_skill_fixed by (rule for_each_fixed)
  have pr': "for_each (PList projects) clean_project = Inr projects"
    using pr clean_project_fixed by (rule for_each_fixed)
  have ex': "for_each (PList experience) clean_experience = Inr experience"
    using ex clean_experience_fixed by (rule for_each_fixed)
  have ed': "for_each (PList education) clean_education = Inr education"
    using ed clean_education_fixed by (rule for_each_fixed)
  show ?thesis
    unfolding out validate_and_clean_def sub_get_def
    by (simp add: dict_get_head dict_get_skip sk' pr' ex' ed' py_bind_def)
qed

text \<open>
  The witness is the end-to-end scenario of the specification: header name Jane Doe, one
  bare skill, the e-mail address taken from the profile.
\<close>

theorem validate_and_clean_idempotent_witness:
  "validate_and_clean
     [(''header'', PDict [(''name'', PStr ''Jane Doe'')]), (''skills'', PList [PStr ''Python'']),
      (''projects'', PList []), (''experience'', PList []), (''education'', PList [])]
     [(''email'', PStr ''jane@x.com'')]
   = Inr [(''header'', PDict [(''name'', PStr ''Jane Doe''), (''title'', PStr [])]),
          (''contact'', PDict [(''phone'', PStr []), (''email'', PStr ''jane@x.com''),
                               (''address'', PStr []), (''website'', PStr []), (''linkedin'', PStr [])]),
          (''summary'', PStr []),
          (''skills'', PList [PDict [(''name'', PStr ''Python''), (''level'', PInt 70)]]),
          (''projects'', PList []), (''experience'', PList []), (''education'', PList [])]
   \<and> validate_and_clean
     [(''header'', PDict [(''name'', PStr ''Jane Doe''), (''title'', PStr [])]),
          (''contact'', PDict [(''phone'', PStr []), (''email'', PStr ''jane@x.com''),
                               (''address'', PStr []), (''website'', PStr []), (''linkedin'', PStr [])]),
          (''summary'', PStr []),
          (''skills'', PList [PDict [(''name'', PStr ''Python''), (''level'', PInt 70)]]),
          (''projects'', PList []), (''experience'', PList []), (''education'', PList [])]
     [(''email'', PStr ''jane@x.com'')]
   = Inr [(''header'', PDict [(''name'', PStr ''Jane Doe''), (''title'', PStr [])]),
          (''contact'', PDict [(''phone'', PStr []), (''email'', PStr ''jane@x.com''),
                               (''address'', PStr []), (''website'', PStr []), (''linkedin'', PStr [])]),
          (''summary'', PStr []),
          (''skills'', PList [PDict [(''name'', PStr ''Python''), (''level'', PInt 70)]]),
          (''projects'', PList []), (''experience'', PList []), (''education'', PList [])]"
proof -
  have run: "validate_and_clean
     [(''header'', PDict [(''name'', PStr ''Jane Doe'')]), (''skills'', PList [PStr ''Python'']),
      (''projects'', PList []), (''experience'', PList []), (''education'', PList [])]
     [(''email'', PStr ''jane@x.com'')]
   = Inr [(''header'', PDict [(''name'', PStr ''Jane Doe''), (''title'', PStr [])]),
          (''contact'', PDict [(''phone'', PStr []), (''email'', PStr ''jane@x.com''),
                               (''address'', PStr []), (''website'', PStr []), (''linkedin'', PStr [])]),
          (''summary'', PStr []),
          (''skills'', PList [PDict [(''name'', PStr ''Python''), (''level'', PInt 70)]]),
          (''projects'', PList []), (''experience'', PList []), (''education'', PList [])]"
    by code_simp
  from validate_and_clean_idempotent[OF run] run show ?thesis by blast
qed

subsection \<open>The skills loop\<close>

lemma collect_member:
  "collect f xs = Inr ys \<Longrightarrow> x \<in> set xs \<Longrightarrow> \<exists>zs. f x = Inr zs \<and> set zs \<subseteq> set ys"
proof (induction xs arbitrary: ys)
  case Nil
  then show ?case by simp
next
  case (Cons a xs)
  from Cons.prems(1) obtain zs ws where "f a = Inr zs" "collect f xs = Inr ws" "ys = zs @ ws"
    by (auto split: sum.splits)
  with Cons.IH Cons.prems(2) show ?case by fastforce
qed



text \<open>
  Claim C2: the code does not do what the claim, and its own text, say. The instructions
  of the agent say that a skill's level must be an integer from 0 to 100, and the
  normalizer is there to ensure strict schema compliance; but it only converts the level
  with \<^verbatim>\<open>int\<close> and never brings it into that range. The raw levels -5 and 150 come out as
  -5 and 150, where the claim says 0 and 100, and the template then writes bars of width
  -5% and 150%.
\<close>

theorem skill_level_out_of_range_kept:
  \<open>validate_and_clean
     [(''skills'', PList [PDict [(''name'', PStr ''Go''), (''level'', PInt (- 5))],
                          PDict [(''name'', PStr ''SQL''), (''level'', PInt 150)]])] []
   = Inr [(''header'', PDict [(''name'', PStr []), (''title'', PStr [])]),
          (''contact'', PDict [(''phone'', PStr []), (''email'', PStr []), (''address'', PStr []),
                               (''website'', PStr []), (''linkedin'', PStr [])]),
          (''summary'', PStr []),
          (''skills'', PList [PDict [(''name'', PStr ''Go''), (''level'', PInt (- 5))],
                              PDict [(''name'', PStr ''SQL''), (''level'', PInt 150)]]),
          (''projects'', PList []), (''experience'', PList []), (''education'', PList [])] \<and>
   sublist ''<div class="skill-fill" style="width: -5%;"></div>''
     (skill_item \<lparr>skill_entry.name = ''Go'', level = - 5\<rparr>) \<and>
   sublist ''<div class="skill-fill" style="width: 150%;"></div>''
     (skill_item \<lparr>skill_entry.name = ''SQL'', level = 150\<rparr>)\<close>
  by code_simp




subsection \<open>Project entries\<close>

lemma collect_clean_project_length:
  "collect clean_project xs = Inr ys \<Longrightarrow> length ys = length (filter is_mapping xs)"
proof (induction xs arbitrary: ys)
  case Nil
  then show ?case by simp
next
  case (Cons a xs)
  from Cons.prems obtain zs ws where a: "clean_project a = Inr zs"
    and ws: "collect clean_project xs = Inr ws" and ys: "ys = zs @ ws"
    by (auto split: sum.splits)
  have "length zs = (if is_mapping a then 1 else 0)"
    using a by (cases a) auto
  with Cons.IH[OF ws] ys show ?case by simp
qed

text \<open>
  Every structured entry of the raw projects list is kept, whatever it holds: its title is
  the value of \<^verbatim>\<open>title\<close>, else of \<^verbatim>\<open>name\<close>, else the empty string; its \<^verbatim>\<open>tech_stack\<close>
  falls back to \<^verbatim>\<open>technologies\<close> and its \<^verbatim>\<open>points\<close> to \<^verbatim>\<open>highlights\<close>, else the empty
  list. The normalized list has one entry for each structured raw entry.
\<close>

theorem project_title_alias:
  assumes "validate_and_clean raw p = Inr out"
    and "map_of raw ''projects'' = Some (PList entries)"
    and "PDict proj \<in> set entries"
  shows "\<exists>projects. map_of out ''projects'' = Some (PList projects) \<and>
           PDict [(''title'', dict_get proj ''title'' (dict_get proj ''name'' (PStr []))),
                  (''tech_stack'',
                     dict_get proj ''tech_stack'' (dict_get proj ''technologies'' (PList []))),
                  (''points'', dict_get proj ''points'' (dict_get proj ''highlights'' (PList [])))]
             \<in> set projects \<and>
           length projects = length (filter is_mapping entries)"
proof -
  have "dict_get raw ''projects'' (PList []) = PList entries"
    using assms(2) by (simp add: dict_get_def)
  with assms(1) obtain projects where s: "map_of out ''projects'' = Some (PList projects)"
    and c: "collect clean_project entries = Inr projects"
    unfolding validate_and_clean_def py_bind_Inr for_each_def by auto
  from collect_member[OF c assms(3)]
  have "PDict [(''title'', dict_get proj ''title'' (dict_get proj ''name'' (PStr []))),
                  (''tech_stack'',
                     dict_get proj ''tech_stack'' (dict_get proj ''technologies'' (PList []))),
                  (''points'', dict_get proj ''points'' (dict_get proj ''highlights'' (PList [])))]
             \<in> set projects"
    by auto
  with s collect_clean_project_length[OF c] show ?thesis by blast
qed

theorem project_title_alias_witness:
  "validate_and_clean [(''projects'', PList [PDict [(''name'', PStr ''Resume tool'')], PDict []])] []
   = Inr [(''header'', PDict [(''name'', PStr []), (''title'', PStr [])]),
          (''contact'', PDict [(''phone'', PStr []), (''email'', PStr []), (''address'', PStr []),
                               (''website'', PStr []), (''linkedin'', PStr [])]),
          (''summary'', PStr []),
          (''skills'', PList []),
          (''projects'', PList [PDict [(''title'', PStr ''Resume tool''), (''tech_stack'', PList []),
                                       (''points'', PList [])],
                                PDict [(''title'', PStr []), (''tech_stack'', PList []),
                                       (''points'', PList [])]]),
          (''experience'', PList []), (''education'', PList [])]
   \<and> (\<exists>projects.
         map_of [(''header'', PDict [(''name'', PStr []), (''title'', PStr [])]),
          (''contact'', PDict [(''phone'', PStr []), (''email'', PStr []), (''address'', PStr []),
                               (''website'', PStr []), (''linkedin'', PStr [])]),
          (''summary'', PStr []),
          (''skills'', PList []),
          (''projects'', PList [PDict [(''title'', PStr ''Resume tool''), (''tech_stack'', PList []),
                                       (''points'', PList [])],
                                PDict [(''title'', PStr []), (''tech_stack'', PList []),
                                       (''points'', PList [])]]),
          (''experience'', PList []), (''education'', PList [])] ''projects'' = Some (PList projects) \<and>
         PDict [(''title'', PStr ''Resume tool''), (''tech_stack'', PList []), (''points'', PList [])]
           \<in> set projects \<and>
         length projects = 2)"
proof -
  let ?entries = "[PDict [(''name'', PStr ''Resume tool'')], PDict []]"
  let ?raw = "[(''projects'', PList ?entries)]"
  let ?out = "[(''header'', PDict [(''name'', PStr []), (''title'', PStr [])]),
          (''contact'', PDict [(''phone'', PStr []), (''email'', PStr []), (''address'', PStr []),
                               (''website'', PStr []), (''linkedin'', PStr [])]),
          (''summary'', PStr []),
          (''skills'', PList []),
          (''projects'', PList [PDict [(''title'', PStr ''Resume tool''), (''tech_stack'', PList []),
                                       (''points'', PList [])],
                                PDict [(''title'', PStr []), (''tech_stack'', PList []),
                                       (''points'', PList [])]]),
          (''experience'', PList []), (''education'', PList [])]"
  have run: "validate_and_clean ?raw [] = Inr ?out" by code_simp
  have e: "map_of ?raw ''projects'' = Some (PList ?entries)" by simp
  have m: "PDict [(''name'', PStr ''Resume tool'')] \<in> set ?entries" by simp
  from project_title_alias[OF run e m] run show ?thesis by (simp add: dict_get_def)
qed

subsection \<open>Education entries\<close>

text \<open>
  Claim C9 says that \<^verbatim>\<open>details\<close> falls back to the key \<^verbatim>\<open>gpa\<close>. In
  \<^verbatim>\<open>_validate_and_clean\<close> it does not: an entry with year 2020 and a \<^verbatim>\<open>gpa\<close> but no
  \<^verbatim>\<open>details\<close> gets the year as the string 2020 and empty details.
\<close>

theorem education_gpa_ignored:
  "validate_and_clean
     [(''education'', PList [PDict [(''degree'', PStr ''BSc''), (''year'', PInt 2020),
                                    (''gpa'', PStr ''3.9'')]])] []
   = Inr [(''header'', PDict [(''name'', PStr []), (''title'', PStr [])]),
          (''contact'', PDict [(''phone'', PStr []), (''email'', PStr []), (''address'', PStr []),
                               (''website'', PStr []), (''linkedin'', PStr [])]),
          (''summary'', PStr []),
          (''skills'', PList []), (''projects'', PList []), (''experience'', PList []),
          (''education'', PList [PDict [(''degree'', PStr ''BSc''), (''institution'', PStr []),
                                        (''year'', PStr ''2020''), (''details'', PStr [])]])]"
  by code_simp

section \<open>Properties of validation and PDF generation\<close>

text \<open>
  Claim C4 says that a document is reported invalid exactly when one of the seven
  top-level fields of the schema is absent, \<^verbatim>\<open>projects\<close> among them. The table
  \<^verbatim>\<open>required_structure\<close> lists six: a document that lacks only \<^verbatim>\<open>projects\<close> is
  reported valid, with no missing field.
\<close>

theorem validate_resume_data_misses_projects:
  "validate_resume_data
     [(''header'', PDict [(''name'', PStr ''Jane Doe''), (''title'', PStr [])]),
      (''contact'', PDict []), (''summary'', PStr []), (''skills'', PList []),
      (''experience'', PList []), (''education'', PList [])]
   = \<lparr>valid = True, missing_fields = [], validation_message = ''Valid resume data''\<rparr>"
  by code_simp

text \<open>For the six fields of the table the report is exact.\<close>

theorem validate_resume_data_six_fields:
  "valid (validate_resume_data data) =
     list_all (\<lambda>field. map_of data field \<noteq> None) required_structure \<and>
   missing_fields (validate_resume_data data) =
     filter (\<lambda>field. map_of data field = None) required_structure"
  by (auto simp: validate_resume_data_def Let_def list_all_iff filter_empty_conv)

text \<open>
  Claim C3 says that in both rendering paths an output of a rasterization that reported
  errors is never returned as valid. \<^verbatim>\<open>generate_pdf_bytes\<close> drops the status of
  \<^verbatim>\<open>pisa.CreatePDF\<close>: when the rasterizer reports one error after writing some bytes,
  those bytes are returned as the PDF.
\<close>

theorem generate_pdf_bytes_returns_tainted_output:
  "generate_pdf_bytes
     \<lparr>output_dir = dir, timestamp = ts, open_error = oe,
      create_pdf = (\<lambda>html. PisaStatus partial 1)\<rparr> resume_data = Inr partial"
  by (simp add: generate_pdf_bytes_def)

text \<open>
  \<^verbatim>\<open>generate_pdf\<close> does what the claim says. Its response has the status success, and
  only then a file path, exactly when the file could be opened and the rasterizer
  returned a status without errors.
\<close>

theorem generate_pdf_success_iff:
  "(status (fst (generate_pdf env disk resume_data filename_arg)) = ''success'' \<longleftrightarrow>
      open_error env (path_join (output_dir env) (pdf_filename env resume_data filename_arg)) = None \<and>
      (\<exists>written. create_pdf env (render resume_data) = PisaStatus written 0)) \<and>
   (file_path (fst (generate_pdf env disk resume_data filename_arg)) \<noteq> None \<longleftrightarrow>
      status (fst (generate_pdf env disk resume_data filename_arg)) = ''success'')"
  by (simp add: generate_pdf_def Let_def split: option.splits pisa_result.splits)

text \<open>
  When the rasterizer reports errors, the response is an error that carries the error
  count and no file path. The file the rasterizer wrote is left on disk.
\<close>

theorem generate_pdf_reports_errors:
  assumes "open_error env (path_join (output_dir env) (pdf_filename env resume_data filename_arg)) = None"
    and "create_pdf env (render resume_data) = PisaStatus written err"
    and "err \<noteq> 0"
  shows "generate_pdf env disk resume_data filename_arg =
           (\<lparr>status = ''error'', message = ''PDF generation had errors: '' @ str_int err,
             file_path = None, filename = None\<rparr>,
            disk(path_join (output_dir env) (pdf_filename env resume_data filename_arg) \<mapsto> written))"
  using assms by (simp add: generate_pdf_def Let_def)

theorem generate_pdf_reports_errors_witness:
  "fst (generate_pdf
     \<lparr>output_dir = ''/srv/resumes'', timestamp = ''20240101_120000'',
      open_error = (\<lambda>path. None), create_pdf = (\<lambda>html. PisaStatus ''%PDF'' 2)\<rparr>
     Map.empty
     \<lparr>header = \<lparr>resume_header.name = ''Jane Doe'', resume_header.title = []\<rparr>,
      contact = \<lparr>phone = [], email = ''jane@x.com'', address = [], website = [], linkedin = []\<rparr>,
      summary = [], skills = [], projects = [], experience = [], education = []\<rparr>
     None)
   = \<lparr>status = ''error'', message = ''PDF generation had errors: 2'',
      file_path = None, filename = None\<rparr>
   \<and> snd (generate_pdf
     \<lparr>output_dir = ''/srv/resumes'', timestamp = ''20240101_120000'',
      open_error = (\<lambda>path. None), create_pdf = (\<lambda>html. PisaStatus ''%PDF'' 2)\<rparr>
     Map.empty
     \<lparr>header = \<lparr>resume_header.name = ''Jane Doe'', resume_header.title = []\<rparr>,
      contact = \<lparr>phone = [], email = ''jane@x.com'', address = [], website = [], linkedin = []\<rparr>,
      summary = [], skills = [], projects = [], experience = [], education = []\<rparr>
     None) ''/srv/resumes/jane_doe_20240101_120000.pdf'' = Some ''%PDF''"
proof -
  let ?env = "\<lparr>output_dir = ''/srv/resumes'', timestamp = ''20240101_120000'',
      open_error = (\<lambda>path. None), create_pdf = (\<lambda>html. PisaStatus ''%PDF'' 2)\<rparr>"
  let ?doc = "\<lparr>header = \<lparr>resume_header.name = ''Jane Doe'', resume_header.title = []\<rparr>,
      contact = \<lparr>phone = [], email = ''jane@x.com'', address = [], website = [], linkedin = []\<rparr>,
      summary = [], skills = [], projects = [], experience = [], education = []\<rparr>"
  have p: "path_join (output_dir ?env) (pdf_filename ?env ?doc None)
             = ''/srv/resumes/jane_doe_20240101_120000.pdf''"
    by code_simp
  have p': "path_join ''/srv/resumes'' (pdf_filename ?env ?doc None)
             = ''/srv/resumes/jane_doe_20240101_120000.pdf''"
    using p by simp
  have s: "str_int 2 = ''2''" by code_simp
  have a: "open_error ?env (path_join (output_dir ?env) (pdf_filename ?env ?doc None)) = None" by simp
  have b: "create_pdf ?env (render ?doc) = PisaStatus ''%PDF'' 2" by simp
  have c: "(2::int) \<noteq> 0" by simp
  from generate_pdf_reports_errors[OF a b c, of Map.empty] show ?thesis
    by (simp add: p' s)
qed

section \<open>Properties of the rendered page\<close>

subsection \<open>Occurrences and concatenation\<close>

lemma prefix_append_cases: "prefix w (s @ b) \<Longrightarrow> prefix w s \<or> proper_prefix s w"
proof (induction s w rule: proper_prefix.induct)
  case 1
  then show ?case by simp
next
  case (2 y ys)
  then show ?case by simp
next
  case (3 x xs)
  then show ?case by simp
next
  case (4 x xs y ys)
  then show ?case by auto
qed

lemma proper_prefix_append: "proper_prefix (s @ b) w \<Longrightarrow> proper_prefix s w"
proof (induction s w rule: proper_prefix.induct)
  case 1
  then show ?case by (cases b) simp_all
next
  case (2 y ys)
  then show ?case by simp
next
  case (3 x xs)
  then show ?case by simp
next
  case (4 x xs y ys)
  then show ?case by simp
qed

lemma occ_append: "nopend w a \<Longrightarrow> occ w (a @ b) = occ w a + occ w b"
proof (induction a)
  case Nil
  then show ?case by simp
next
  case (Cons x xs)
  then have np: "\<not> proper_prefix (x # xs) w" and rest: "occ w (xs @ b) = occ w xs + occ w b"
    by simp_all
  have "prefix w ((x # xs) @ b) \<longleftrightarrow> prefix w (x # xs)"
  proof
    assume "prefix w ((x # xs) @ b)"
    from prefix_append_cases[OF this] np show "prefix w (x # xs)" by blast
  next
    assume "prefix w (x # xs)"
    then show "prefix w ((x # xs) @ b)" by (metis prefix_prefix)
  qed
  then have "prefix w (x # xs @ b) \<longleftrightarrow> prefix w (x # xs)" by simp
  with rest show ?case by simp
qed

lemma nopend_append: "nopend w a \<Longrightarrow> nopend w b \<Longrightarrow> nopend w (a @ b)"
proof (induction a)
  case Nil
  then show ?case by simp
next
  case (Cons x xs)
  then have np: "\<not> proper_prefix (x # xs) w" and rest: "nopend w (xs @ b)"
    by simp_all
  have "\<not> proper_prefix ((x # xs) @ b) w"
    using np proper_prefix_append by blast
  with rest show ?case by simp
qed

text \<open>
  A plain value followed by a guard: no mark starts in the value, and none is left pending
  at its end.
\<close>

lemma proper_prefix_prefix: "proper_prefix a b \<Longrightarrow> prefix a b"
  by (induction a b rule: proper_prefix.induct) simp_all

lemma incomparable_iff: "incomparable v y \<longleftrightarrow> \<not> prefix v y \<and> \<not> prefix y v"
  by (induction v y rule: incomparable.induct) auto

lemma incomparable_append: "incomparable v x \<Longrightarrow> incomparable v (x @ r)"
  by (induction v x rule: incomparable.induct) auto

lemma guard_append: "guard x \<Longrightarrow> guard (x @ r)"
  unfolding guard_def list_all_iff using incomparable_append by blast

lemma tails_ne_member: "v \<noteq> [] \<Longrightarrow> v \<in> set (tails_ne (u @ v))"
proof (induction u)
  case Nil
  then show ?case by (cases v) simp_all
next
  case (Cons a u)
  then show ?case by simp
qed

lemma plain_tl: "plain (x # xs) \<Longrightarrow> plain xs"
  unfolding plain_def by (simp add: sublist_Cons_right)

lemma plain_guarded:
  assumes "plain d" and "d \<noteq> []" and "guard y"
  shows "\<not> prefix (div_class @ w) (d @ y)" and "\<not> prefix (d @ y) (div_class @ w)"
proof -
  have no: "\<not> prefix div_class d"
    using assms(1) unfolding plain_def by (meson prefix_imp_sublist)
  have both: False if c: "prefix d div_class" and y: "prefix v y \<or> prefix y v" and
      k: "div_class = d @ v" for v
  proof -
    from no k have "v \<noteq> []" by auto
    moreover from assms(2) obtain x d' where d: "d = x # d'" by (cases d) auto
    ultimately have "v \<in> set (tails_ne (d' @ v))" by (simp add: tails_ne_member)
    moreover from k d have "tl div_class = d' @ v" by (metis append_Cons list.sel(3))
    ultimately have "incomparable v y"
      using assms(3) unfolding guard_def list_all_iff by simp
    with y show False by (simp add: incomparable_iff)
  qed
  show "\<not> prefix (div_class @ w) (d @ y)"
  proof
    assume a: "prefix (div_class @ w) (d @ y)"
    then have "prefix div_class (d @ y)" by (meson append_prefixD)
    then have "prefix div_class d \<or> prefix d div_class"
      by (meson prefix_same_cases prefixI)
    with no have c: "prefix d div_class" by blast
    then obtain v where k: "div_class = d @ v" by (auto simp: prefix_def)
    from a have "prefix (v @ w) y" unfolding k by simp
    then have "prefix v y" by (meson append_prefixD)
    with both[OF c _ k] show False by blast
  qed
  show "\<not> prefix (d @ y) (div_class @ w)"
  proof
    assume a: "prefix (d @ y) (div_class @ w)"
    then have "prefix d (div_class @ w)" by (meson append_prefixD)
    then have "prefix div_class d \<or> prefix d div_class"
      by (meson prefix_same_cases prefixI)
    with no have c: "prefix d div_class" by blast
    then obtain v where k: "div_class = d @ v" by (auto simp: prefix_def)
    from a have "prefix y (v @ w)" unfolding k by simp
    then have "prefix v y \<or> prefix y v"
      by (meson prefix_same_cases prefixI)
    with both[OF c _ k] show False by blast
  qed
qed

lemma occ_plain_guarded:
  "plain d \<Longrightarrow> guard y \<Longrightarrow> occ (div_class @ w) (d @ y) = occ (div_class @ w) y"
proof (induction d)
  case Nil
  then show ?case by simp
next
  case (Cons x xs)
  from Cons.prems have "\<not> prefix (div_class @ w) ((x # xs) @ y)"
    by (intro plain_guarded) simp_all
  moreover from Cons have "occ (div_class @ w) (xs @ y) = occ (div_class @ w) y"
    using plain_tl by blast
  ultimately show ?case by simp
qed

lemma nopend_plain_guarded:
  "plain d \<Longrightarrow> guard y \<Longrightarrow> nopend (div_class @ w) y \<Longrightarrow> nopend (div_class @ w) (d @ y)"
proof (induction d)
  case Nil
  then show ?case by simp
next
  case (Cons x xs)
  from Cons.prems have "\<not> prefix ((x # xs) @ y) (div_class @ w)"
    by (intro plain_guarded) simp_all
  then have "\<not> proper_prefix ((x # xs) @ y) (div_class @ w)"
    using proper_prefix_prefix by blast
  moreover from Cons have "nopend (div_class @ w) (xs @ y)"
    using plain_tl by blast
  ultimately show ?case by simp
qed

lemmas occ_data = occ_plain_guarded[unfolded div_class_def append.simps]

lemmas nopend_data = nopend_plain_guarded[unfolded div_class_def append.simps]

lemma guard_eval:
  \<open>guard y \<longleftrightarrow>
     incomparable ''div class="'' y \<and> incomparable ''iv class="'' y \<and>
     incomparable ''v class="'' y \<and> incomparable '' class="'' y \<and>
     incomparable ''class="'' y \<and> incomparable ''lass="'' y \<and> incomparable ''ass="'' y \<and>
     incomparable ''ss="'' y \<and> incomparable ''s="'' y \<and> incomparable ''="'' y \<and>
     incomparable ''"'' y\<close>
  by (simp add: guard_def div_class_def)

lemmas guard_literal = guard_eval[of "c # cs"] for c cs

lemma nopend_concat_map:
  "(\<And>x. x \<in> set xs \<Longrightarrow> nopend w (f x)) \<Longrightarrow> nopend w (concat (map f xs))"
  by (induction xs) (simp_all add: nopend_append)

lemma occ_concat_map:
  "(\<And>x. x \<in> set xs \<Longrightarrow> nopend w (f x) \<and> occ w (f x) = k) \<Longrightarrow>
   occ w (concat (map f xs)) = k * length xs"
  by (induction xs) (simp_all add: occ_append)

lemma occ_zero_iff: "w \<noteq> [] \<Longrightarrow> occ w s = 0 \<longleftrightarrow> \<not> sublist w s"
  by (induction s) (auto simp: sublist_Cons_right)

lemma sublist_occ: "sublist (c # w) s \<longleftrightarrow> occ (c # w) s \<noteq> 0"
  using occ_zero_iff[of "c # w" s] by simp

lemma sub_trans: "sublist a b \<Longrightarrow> sublist b c \<Longrightarrow> sublist a c"
  by (auto simp: sublist_def) (metis append.assoc)

lemma sub_piece: "p \<in> set ps \<Longrightarrow> sublist p (concat ps)"
proof (induction ps)
  case Nil
  then show ?case by simp
next
  case (Cons a ps)
  show ?case
  proof (cases "p = a")
    case True
    then show ?thesis by simp
  next
    case False
    with Cons have "sublist p (concat ps)" by simp
    then obtain xs ys where "concat ps = xs @ p @ ys" by (auto simp: sublist_def)
    then have "concat (a # ps) = (a @ xs) @ p @ ys" by simp
    then show ?thesis unfolding sublist_def by blast
  qed
qed

lemma sub_pieces: "sublist ms ps \<Longrightarrow> sublist (concat ms) (concat ps)"
proof -
  assume "sublist ms ps"
  then obtain xs ys where "ps = xs @ ms @ ys" by (auto simp: sublist_def)
  then have "concat ps = concat xs @ concat ms @ concat ys" by simp
  then show ?thesis unfolding sublist_def by blast
qed

lemma sub_mid: "suffix u a \<Longrightarrow> prefix v b \<Longrightarrow> sublist (u @ m @ v) (concat [a, m, b])"
proof -
  assume "suffix u a" "prefix v b"
  then obtain x y where "a = x @ u" "b = v @ y" by (auto simp: suffix_def prefix_def)
  then have "concat [a, m, b] = x @ (u @ m @ v) @ y" by simp
  then show ?thesis unfolding sublist_def by blast
qed

lemma sub_concat_map: "x \<in> set xs \<Longrightarrow> sublist (f x) (concat (map f xs))"
  using sub_piece[of "f x" "map f xs"] by simp

subsection \<open>What the template's expressions write is plain\<close>

lemma plain_no_lt: "CHR ''<'' \<notin> set s \<Longrightarrow> plain s"
proof -
  assume a: "CHR ''<'' \<notin> set s"
  have "CHR ''<'' \<in> set div_class" by (simp add: div_class_def)
  then have "\<not> set div_class \<subseteq> set s" using a by blast
  then show "plain s" unfolding plain_def using set_mono_sublist by blast
qed

lemma plain_css: "plain page_css"
  by (rule plain_no_lt) (simp add: page_css_def)

lemma of_char_d: "(of_char (CHR ''d'') :: nat) = 100"
  by simp

lemma upper_char_d: "upper_char c \<noteq> CHR ''d''"
proof (cases "97 \<le> (of_char c :: nat) \<and> (of_char c :: nat) \<le> 122")
  case True
  show ?thesis
  proof
    assume "upper_char c = CHR ''d''"
    with True have "char_of ((of_char c :: nat) - 32) = CHR ''d''"
      by (simp add: upper_char_def Let_def)
    then have "(of_char (char_of ((of_char c :: nat) - 32) :: char) :: nat) = 100"
      by (simp only: of_char_d)
    then have m: "((of_char c :: nat) - 32) mod 256 = 100"
      by (simp only: of_char_of)
    from True have "(of_char c :: nat) - 32 < 256" by arith
    then have "((of_char c :: nat) - 32) mod 256 = (of_char c :: nat) - 32" by (rule mod_less)
    with m True show False by arith
  qed
next
  case False
  show ?thesis
  proof
    assume "upper_char c = CHR ''d''"
    moreover from False have "upper_char c = c" by (auto simp: upper_char_def Let_def)
    ultimately have "c = CHR ''d''" by simp
    then have "(of_char c :: nat) = 100" by simp
    with False show False by arith
  qed
qed

lemma plain_upper: "plain (upper s)"
proof -
  have "CHR ''d'' \<notin> set (upper s)"
  proof
    assume "CHR ''d'' \<in> set (upper s)"
    then obtain c where "upper_char c = CHR ''d''" unfolding upper_def by auto
    with upper_char_d show False by blast
  qed
  moreover have "CHR ''d'' \<in> set div_class" by (simp add: div_class_def)
  ultimately have "\<not> set div_class \<subseteq> set (upper s)" by blast
  then show ?thesis unfolding plain_def using set_mono_sublist by blast
qed

lemma digit_char_not_lt: "k < 10 \<Longrightarrow> (char_of (48 + k :: nat) :: char) \<noteq> CHR ''<''"
proof
  assume k: "k < 10" and a: "(char_of (48 + k :: nat) :: char) = CHR ''<''"
  then have "(of_char (char_of (48 + k) :: char) :: nat) = of_char (CHR ''<'')" by simp
  then have "(48 + k) mod 256 = 60" by (simp only: of_char_of) simp
  with k show False by auto
qed

lemma str_nat_no_lt: "CHR ''<'' \<notin> set (str_nat n)"
proof (induction n rule: str_nat.induct)
  case (1 n)
  show ?case
  proof (cases "n < 10")
    case True
    then show ?thesis using digit_char_not_lt[of n] by (subst str_nat.simps) auto
  next
    case False
    have "n mod 10 < 10" by simp
    then have "(char_of (48 + n mod 10) :: char) \<noteq> CHR ''<''" by (rule digit_char_not_lt)
    with False 1 show ?thesis by (subst str_nat.simps) auto
  qed
qed

lemma plain_str_int: "plain (str_int i)"
  by (rule plain_no_lt) (use str_nat_no_lt in \<open>simp add: str_int_def\<close>)

lemma plain_Nil: "plain []"
  by (simp add: plain_def div_class_def)

lemma plain_comma:
  assumes "plain a" and "plain b"
  shows "plain (a @ CHR '','' # CHR '' '' # b)"
  unfolding plain_def
proof
  assume "sublist div_class (a @ CHR '','' # CHR '' '' # b)"
  then consider "sublist div_class a" | "sublist div_class (CHR '','' # CHR '' '' # b)"
    | xs1 xs2 where "div_class = xs1 @ xs2" "suffix xs1 a" "prefix xs2 (CHR '','' # CHR '' '' # b)"
    unfolding sublist_append by blast
  then show False
  proof cases
    case 1
    with assms(1) show False by (simp add: plain_def)
  next
    case 2
    then have "sublist div_class b"
      by (simp add: sublist_Cons_right div_class_def)
    with assms(2) show False by (simp add: plain_def)
  next
    case 3
    show False
    proof (cases xs2)
      case Nil
      with 3 have "suffix div_class a" by simp
      then have "sublist div_class a" by (meson suffix_imp_sublist)
      with assms(1) show False by (simp add: plain_def)
    next
      case (Cons c cs)
      with 3(3) have "c = CHR '',''" by simp
      with Cons 3(1) have "CHR '','' \<in> set div_class" by (metis in_set_conv_decomp)
      then show False by (simp add: div_class_def)
    qed
  qed
qed

lemma plain_join: "list_all plain xs \<Longrightarrow> plain (join '', '' xs)"
  by (induction "'', ''" xs rule: join.induct) (simp_all add: plain_Nil plain_comma)

lemma plain_labels:
  "plain ''phone''" "plain ''email''" "plain ''address''" "plain ''website''" "plain ''linkedin''"
  by (rule plain_no_lt, simp)+

subsection \<open>The marks in each block of the template\<close>

text \<open>
  For every block, and every mark: the block leaves no mark pending at its end, and the
  number of times the mark occurs in it. The text of the template is evaluated literal by
  literal; the values of the document are plain, each is followed by a guard, and so they
  add nothing.
\<close>

lemma occ_Nil_append: "occ w ([] @ b) = occ w b" "nopend w ([] @ b) = nopend w b"
  by simp_all

lemmas scan =
  marks_def list.pred_inject occ_append nopend_append occ_data nopend_data guard_append guard_literal
  incomparable.simps occ_Nil_append
  occ.simps nopend.simps proper_prefix.simps Sublist.Cons_prefix_Cons Sublist.prefix_code
  char.inject list.inject list.distinct simp_thms if_True if_False add_0 add_0_right
  mult_0 mult_1 append_assoc concat.simps append_Nil2 append_Nil

lemma items_marks:
  assumes "\<And>x. x \<in> set xs \<Longrightarrow> list_all (\<lambda>w. nopend w (f x) \<and> occ w (f x) = k w) marks"
  shows "list_all (\<lambda>w. nopend w (concat (map f xs)) \<and>
                        occ w (concat (map f xs)) = k w * length xs) marks"
  unfolding list_all_iff
proof (intro ballI conjI)
  fix w assume w: "w \<in> set marks"
  from assms w have a: "\<And>x. x \<in> set xs \<Longrightarrow> nopend w (f x) \<and> occ w (f x) = k w"
    unfolding list_all_iff by blast
  then show "nopend w (concat (map f xs))" by (simp add: nopend_concat_map)
  from a show "occ w (concat (map f xs)) = k w * length xs" by (rule occ_concat_map)
qed

lemma contact_item_marks:
  assumes "plain l" "plain v"
  shows "list_all (\<lambda>w. nopend w (contact_item l v) \<and> occ w (contact_item l v) = 0) marks"
  using assms by (cases "v = []") (simp_all only: contact_item_def scan)

lemma contact_rows_marks:
  assumes "plain (phone c)" "plain (email c)" "plain (address c)"
    "plain (website c)" "plain (linkedin c)"
  shows "list_all (\<lambda>w. nopend w (contact_rows c) \<and> occ w (contact_rows c) = 0) marks"
  using contact_item_marks[OF plain_labels(1) assms(1)]
    contact_item_marks[OF plain_labels(2) assms(2)]
    contact_item_marks[OF plain_labels(3) assms(3)]
    contact_item_marks[OF plain_labels(4) assms(4)]
    contact_item_marks[OF plain_labels(5) assms(5)]
  by (simp only: contact_rows_def scan)

lemma summary_section_marks:
  assumes "plain s"
  shows "list_all (\<lambda>w. nopend w (summary_section s) \<and>
            occ w (summary_section s) =
              (if w = ''<div class=\"section-title\">Summary</div>'' \<and> s \<noteq> [] then 1 else 0)) marks"
  using assms by (cases "s = []") (simp_all only: summary_section_def scan)

lemma education_item_marks:
  assumes "plain (year e)" "plain (degree e)" "plain (details e)" "plain (institution e)"
  shows "list_all (\<lambda>w. nopend w (education_item e) \<and>
            occ w (education_item e) = (if w = ''<div class=\"education-item\">'' then 1 else 0)) marks"
  using assms by (cases "details e = []") (simp_all only: education_item_def scan)

lemma education_section_marks:
  assumes "list_all (\<lambda>e. plain (degree e) \<and> plain (institution e) \<and> plain (year e) \<and>
                           plain (details e)) es"
  shows "list_all (\<lambda>w. nopend w (education_section es) \<and>
            occ w (education_section es) =
              (if w = ''<div class=\"section-title\">Education</div>'' \<and> es \<noteq> [] then 1 else 0) +
              (if w = ''<div class=\"education-item\">'' then length es else 0)) marks"
proof -
  have "list_all (\<lambda>w. nopend w (concat (map education_item es)) \<and>
                        occ w (concat (map education_item es)) =
                        (if w = ''<div class=\"education-item\">'' then 1 else 0) * length es) marks"
    using assms by (intro items_marks education_item_marks) (simp_all add: list_all_iff)
  then show ?thesis
    by (cases "es = []") (simp_all only: education_section_def scan list.size)
qed

lemma skill_item_marks:
  assumes "plain (skill_entry.name s)"
  shows "list_all (\<lambda>w. nopend w (skill_item s) \<and>
            occ w (skill_item s) = (if w = ''<div class=\"skill-item\">'' then 1 else 0)) marks"
  using assms plain_str_int[of "level s"] by (simp only: skill_item_def scan)

lemma skills_section_marks:
  assumes "list_all (\<lambda>s. plain (skill_entry.name s)) ss"
  shows "list_all (\<lambda>w. nopend w (skills_section ss) \<and>
            occ w (skills_section ss) =
              (if w = ''<div class=\"section-title\">Relevant Skills</div>'' \<and> ss \<noteq> [] then 1 else 0) +
              (if w = ''<div class=\"skill-item\">'' then length ss else 0)) marks"
proof -
  have "list_all (\<lambda>w. nopend w (concat (map skill_item ss)) \<and>
                        occ w (concat (map skill_item ss)) =
                        (if w = ''<div class=\"skill-item\">'' then 1 else 0) * length ss) marks"
    using assms by (intro items_marks skill_item_marks) (simp_all add: list_all_iff)
  then show ?thesis
    by (cases "ss = []") (simp_all only: skills_section_def scan list.size)
qed

lemma point_item_marks:
  assumes "plain p"
  shows "list_all (\<lambda>w. nopend w (point_item p) \<and> occ w (point_item p) = 0) marks"
  using assms by (simp only: point_item_def scan)

lemma point_items_marks:
  assumes "list_all plain ps"
  shows "list_all (\<lambda>w. nopend w (concat (map point_item ps)) \<and>
                        occ w (concat (map point_item ps)) = 0 * length ps) marks"
  using assms by (intro items_marks point_item_marks) (simp_all add: list_all_iff)

lemma experience_item_marks:
  assumes "plain (role e)" "plain (company e)" "plain (location e)" "plain (duration e)"
    "list_all plain (experience_entry.points e)"
  shows "list_all (\<lambda>w. nopend w (experience_item e) \<and>
            occ w (experience_item e) = (if w = ''<div class=\"experience-item\">'' then 1 else 0)) marks"
  using assms(1-4) point_items_marks[OF assms(5)]
  by (cases "location e = []"; cases "experience_entry.points e = []")
     (simp_all only: experience_item_def scan)

lemma experience_section_marks:
  assumes "list_all (\<lambda>e. plain (role e) \<and> plain (company e) \<and> plain (location e) \<and>
                    plain (duration e) \<and> list_all plain (experience_entry.points e)) es"
  shows "list_all (\<lambda>w. nopend w (experience_section es) \<and>
            occ w (experience_section es) =
              (if w = ''<div class=\"section-title\">Professional Experience</div>'' \<and> es \<noteq> []
               then 1 else 0) +
              (if w = ''<div class=\"experience-item\">'' then length es else 0)) marks"
proof -
  have "list_all (\<lambda>w. nopend w (concat (map experience_item es)) \<and>
                        occ w (concat (map experience_item es)) =
                        (if w = ''<div class=\"experience-item\">'' then 1 else 0) * length es) marks"
    using assms by (intro items_marks experience_item_marks) (simp_all add: list_all_iff)
  then show ?thesis
    by (cases "es = []") (simp_all only: experience_section_def scan list.size)
qed

lemma project_item_marks:
  assumes "plain (project_entry.title p)" "list_all plain (tech_stack p)"
    "list_all plain (project_entry.points p)"
  shows "list_all (\<lambda>w. nopend w (project_item p) \<and>
            occ w (project_item p) = (if w = ''<div class=\"project-item\">'' then 1 else 0)) marks"
  using assms(1) plain_join[OF assms(2)] point_items_marks[OF assms(3)]
  by (cases "tech_stack p = []"; cases "project_entry.points p = []")
     (simp_all only: project_item_def scan)

lemma projects_section_marks:
  assumes "list_all (\<lambda>p. plain (project_entry.title p) \<and> list_all plain (tech_stack p) \<and>
                    list_all plain (project_entry.points p)) ps"
  shows "list_all (\<lambda>w. nopend w (projects_section ps) \<and>
            occ w (projects_section ps) =
              (if w = ''<div class=\"section-title\">Projects</div>'' \<and> ps \<noteq> [] then 1 else 0) +
              (if w = ''<div class=\"project-item\">'' then length ps else 0)) marks"
proof -
  have "list_all (\<lambda>w. nopend w (concat (map project_item ps)) \<and>
                        occ w (concat (map project_item ps)) =
                        (if w = ''<div class=\"project-item\">'' then 1 else 0) * length ps) marks"
    using assms by (intro items_marks project_item_marks) (simp_all add: list_all_iff)
  then show ?thesis
    by (cases "ps = []") (simp_all only: projects_section_def scan list.size)
qed

lemma render_marks:
  assumes "plain_resume doc"
  shows "list_all (\<lambda>w. occ w (render doc) =
           (if w = ''<div class=\"section-title\">Summary</div>'' \<and> summary doc \<noteq> [] then 1 else 0) +
           (if w = ''<div class=\"section-title\">Education</div>'' \<and> education doc \<noteq> [] then 1 else 0) +
           (if w = ''<div class=\"education-item\">'' then length (education doc) else 0) +
           (if w = ''<div class=\"section-title\">Relevant Skills</div>'' \<and> skills doc \<noteq> [] then 1 else 0) +
           (if w = ''<div class=\"skill-item\">'' then length (skills doc) else 0) +
           (if w = ''<div class=\"section-title\">Professional Experience</div>'' \<and> experience doc \<noteq> []
            then 1 else 0) +
           (if w = ''<div class=\"experience-item\">'' then length (experience doc) else 0) +
           (if w = ''<div class=\"section-title\">Projects</div>'' \<and> projects doc \<noteq> [] then 1 else 0) +
           (if w = ''<div class=\"project-item\">'' then length (projects doc) else 0)) marks"
proof -
  from assms have p: "plain (resume_header.name (header doc))"
    and c: "plain (phone (contact doc))" "plain (email (contact doc))" "plain (address (contact doc))"
      "plain (website (contact doc))" "plain (linkedin (contact doc))"
    and s: "plain (summary doc)"
    and sk: "list_all (\<lambda>s. plain (skill_entry.name s)) (skills doc)"
    and pr: "list_all (\<lambda>p. plain (project_entry.title p) \<and> list_all plain (tech_stack p) \<and>
                      list_all plain (project_entry.points p)) (projects doc)"
    and ex: "list_all (\<lambda>e. plain (role e) \<and> plain (company e) \<and> plain (location e) \<and>
                      plain (duration e) \<and> list_all plain (experience_entry.points e)) (experience doc)"
    and ed: "list_all (\<lambda>e. plain (degree e) \<and> plain (institution e) \<and> plain (year e) \<and>
                      plain (details e)) (education doc)"
    unfolding plain_resume_def by simp_all
  show ?thesis
    using p plain_upper[of "resume_header.name (header doc)"]
      plain_upper[of "resume_header.title (header doc)"]
      plain_css contact_rows_marks[OF c] summary_section_marks[OF s]
      education_section_marks[OF ed] skills_section_marks[OF sk]
      experience_section_marks[OF ex] projects_section_marks[OF pr]
    by (simp only: render_def scan)
qed

lemma render_counts:
  assumes "plain_resume doc"
  shows \<open>occ ''<div class="section-title">Summary</div>'' (render doc) =
             (if summary doc \<noteq> [] then 1 else 0)\<close>
    \<open>occ ''<div class="section-title">Education</div>'' (render doc) =
             (if education doc \<noteq> [] then 1 else 0)\<close>
    \<open>occ ''<div class="section-title">Relevant Skills</div>'' (render doc) =
             (if skills doc \<noteq> [] then 1 else 0)\<close>
    \<open>occ ''<div class="section-title">Professional Experience</div>'' (render doc) =
             (if experience doc \<noteq> [] then 1 else 0)\<close>
    \<open>occ ''<div class="section-title">Projects</div>'' (render doc) =
             (if projects doc \<noteq> [] then 1 else 0)\<close>
    \<open>occ ''<div class="education-item">'' (render doc) = length (education doc)\<close>
    \<open>occ ''<div class="skill-item">'' (render doc) = length (skills doc)\<close>
    \<open>occ ''<div class="experience-item">'' (render doc) = length (experience doc)\<close>
    \<open>occ ''<div class="project-item">'' (render doc) = length (projects doc)\<close>
  using render_marks[OF assms]
  by (simp_all only: marks_def list.pred_inject list.inject char.inject simp_thms if_True if_False
        add_0 add_0_right)

subsection \<open>Sections of empty sequences are left out\<close>

text \<open>
  Claim C7 as stated fails. The template writes the values of the document into the page
  without escaping them, so a conformant document with no project whose summary is the
  text of a Projects section header renders to a page that holds that header.
\<close>

lemma summary_in_render: "sublist (summary_section (summary doc)) (render doc)"
  unfolding render_def by (rule sub_piece) simp

lemma summary_text_in_render:
  assumes "summary doc \<noteq> []"
  shows "sublist (summary doc) (render doc)"
proof -
  have "sublist (summary doc) (summary_section (summary doc))"
    using assms unfolding summary_section_def by (simp only: if_False) (rule sub_piece, simp)
  then show ?thesis using summary_in_render by (rule sub_trans)
qed

theorem projects_header_counterexample:
  \<open>sublist ''<div class="section-title">Projects</div>''
     (render
       \<lparr>header = \<lparr>resume_header.name = ''Jane Doe'', resume_header.title = []\<rparr>,
        contact = \<lparr>phone = [], email = [], address = [], website = [], linkedin = []\<rparr>,
        summary = ''<div class="section-title">Projects</div>'',
        skills = [], projects = [], experience = [], education = []\<rparr>)\<close>
  using summary_text_in_render
    [of \<open>\<lparr>header = \<lparr>resume_header.name = ''Jane Doe'', resume_header.title = []\<rparr>,
        contact = \<lparr>phone = [], email = [], address = [], website = [], linkedin = []\<rparr>,
        summary = ''<div class="section-title">Projects</div>'',
        skills = [], projects = [], experience = [], education = []\<rparr>\<close>]
  by simp

text \<open>
  Claim C7, as the code has it. For every conformant document none of whose text fields
  holds the text \<^verbatim>\<open><div class=\<close> followed by a double quote (the opening of a block; a field
  may hold any other markup, such as \<^verbatim>\<open><100ms\<close> or \<^verbatim>\<open><b>\<close>): the page holds the Projects
  section header exactly when \<^verbatim>\<open>projects\<close> is not empty, and then once; it holds one
  project block for each entry of \<^verbatim>\<open>projects\<close>, so none for the empty sequence and
  exactly one for a single entry; and the headers of Professional Experience, Education
  and Relevant Skills are on the page exactly when their sequence is not empty, with one
  block for each entry, the Summary header exactly when the summary is not empty.
\<close>

theorem empty_sections_omitted:
  assumes "plain_resume doc"
  shows \<open>(sublist ''<div class="section-title">Projects</div>'' (render doc) \<longleftrightarrow> projects doc \<noteq> []) \<and>
         occ ''<div class="section-title">Projects</div>'' (render doc) \<le> 1 \<and>
         occ ''<div class="project-item">'' (render doc) = length (projects doc) \<and>
         (sublist ''<div class="section-title">Professional Experience</div>'' (render doc)
            \<longleftrightarrow> experience doc \<noteq> []) \<and>
         occ ''<div class="experience-item">'' (render doc) = length (experience doc) \<and>
         (sublist ''<div class="section-title">Education</div>'' (render doc) \<longleftrightarrow> education doc \<noteq> []) \<and>
         occ ''<div class="education-item">'' (render doc) = length (education doc) \<and>
         (sublist ''<div class="section-title">Relevant Skills</div>'' (render doc) \<longleftrightarrow> skills doc \<noteq> []) \<and>
         occ ''<div class="skill-item">'' (render doc) = length (skills doc) \<and>
         (sublist ''<div class="section-title">Summary</div>'' (render doc) \<longleftrightarrow> summary doc \<noteq> [])\<close>
  unfolding sublist_occ render_counts[OF assms] by simp

text \<open>
  The witnesses: the end-to-end scenario of the specification (one skill, no project) with
  a summary that holds a \<^verbatim>\<open><\<close>, and the same person with no skill and one project whose
  texts hold markup of their own, one of them ending with \<^verbatim>\<open><div\<close>.
\<close>

theorem empty_sections_omitted_witness:
  \<open>plain_resume
     \<lparr>header = \<lparr>resume_header.name = ''Jane Doe'', resume_header.title = []\<rparr>,
      contact = \<lparr>phone = [], email = ''jane@x.com'', address = [], website = [], linkedin = []\<rparr>,
      summary = ''Cut p99 latency to <100ms'',
      skills = [\<lparr>skill_entry.name = ''Python'', level = 70\<rparr>],
      projects = [], experience = [], education = []\<rparr> \<and>
   \<not> sublist ''<div class="section-title">Projects</div>''
     (render
       \<lparr>header = \<lparr>resume_header.name = ''Jane Doe'', resume_header.title = []\<rparr>,
        contact = \<lparr>phone = [], email = ''jane@x.com'', address = [], website = [], linkedin = []\<rparr>,
        summary = ''Cut p99 latency to <100ms'',
        skills = [\<lparr>skill_entry.name = ''Python'', level = 70\<rparr>],
        projects = [], experience = [], education = []\<rparr>) \<and>
   sublist ''<div class="section-title">Relevant Skills</div>''
     (render
       \<lparr>header = \<lparr>resume_header.name = ''Jane Doe'', resume_header.title = []\<rparr>,
        contact = \<lparr>phone = [], email = ''jane@x.com'', address = [], website = [], linkedin = []\<rparr>,
        summary = ''Cut p99 latency to <100ms'',
        skills = [\<lparr>skill_entry.name = ''Python'', level = 70\<rparr>],
        projects = [], experience = [], education = []\<rparr>) \<and>
   sublist ''<div class="section-title">Summary</div>''
     (render
       \<lparr>header = \<lparr>resume_header.name = ''Jane Doe'', resume_header.title = []\<rparr>,
        contact = \<lparr>phone = [], email = ''jane@x.com'', address = [], website = [], linkedin = []\<rparr>,
        summary = ''Cut p99 latency to <100ms'',
        skills = [\<lparr>skill_entry.name = ''Python'', level = 70\<rparr>],
        projects = [], experience = [], education = []\<rparr>) \<and>
   plain_resume
     \<lparr>header = \<lparr>resume_header.name = ''Jane Doe'', resume_header.title = []\<rparr>,
      contact = \<lparr>phone = [], email = ''jane@x.com'', address = [], website = [], linkedin = []\<rparr>,
      summary = [], skills = [],
      projects = [\<lparr>project_entry.title = ''Resume tool <div'', tech_stack = [''Python''],
                   project_entry.points = [''Built the <b>renderer</b>'']\<rparr>],
      experience = [], education = []\<rparr> \<and>
   sublist ''<div class="section-title">Projects</div>''
     (render
       \<lparr>header = \<lparr>resume_header.name = ''Jane Doe'', resume_header.title = []\<rparr>,
        contact = \<lparr>phone = [], email = ''jane@x.com'', address = [], website = [], linkedin = []\<rparr>,
        summary = [], skills = [],
        projects = [\<lparr>project_entry.title = ''Resume tool <div'', tech_stack = [''Python''],
                     project_entry.points = [''Built the <b>renderer</b>'']\<rparr>],
        experience = [], education = []\<rparr>) \<and>
   occ ''<div class="project-item">''
     (render
       \<lparr>header = \<lparr>resume_header.name = ''Jane Doe'', resume_header.title = []\<rparr>,
        contact = \<lparr>phone = [], email = ''jane@x.com'', address = [], website = [], linkedin = []\<rparr>,
        summary = [], skills = [],
        projects = [\<lparr>project_entry.title = ''Resume tool <div'', tech_stack = [''Python''],
                     project_entry.points = [''Built the <b>renderer</b>'']\<rparr>],
        experience = [], education = []\<rparr>) = 1\<close>
proof -
  let ?a = "\<lparr>header = \<lparr>resume_header.name = ''Jane Doe'', resume_header.title = []\<rparr>,
      contact = \<lparr>phone = [], email = ''jane@x.com'', address = [], website = [], linkedin = []\<rparr>,
      summary = ''Cut p99 latency to <100ms'',
      skills = [\<lparr>skill_entry.name = ''Python'', level = 70\<rparr>],
      projects = [], experience = [], education = []\<rparr>"
  let ?b = "\<lparr>header = \<lparr>resume_header.name = ''Jane Doe'', resume_header.title = []\<rparr>,
      contact = \<lparr>phone = [], email = ''jane@x.com'', address = [], website = [], linkedin = []\<rparr>,
      summary = [], skills = [],
      projects = [\<lparr>project_entry.title = ''Resume tool <div'', tech_stack = [''Python''],
                   project_entry.points = [''Built the <b>renderer</b>'']\<rparr>],
      experience = [], education = []\<rparr>"
  have a: "plain_resume ?a" by code_simp
  have b: "plain_resume ?b" by code_simp
  from empty_sections_omitted[OF a] empty_sections_omitted[OF b] a b show ?thesis by simp
qed

subsection \<open>The skill bar\<close>

lemma skills_in_render: "sublist (skills_section (skills doc)) (render doc)"
  unfolding render_def by (rule sub_piece) simp

lemma bar_in_skill_item:
  \<open>sublist (''<div class="skill-fill" style="width: '' @ str_int (level skill) @ ''%;"></div>'')
     (skill_item skill)\<close>
proof -
  have \<open>sublist (''<div class="skill-fill" style="width: '' @ str_int (level skill) @ ''%;"></div>'')
          (concat [''                            <div class="skill-fill" style="width: '',
                   str_int (level skill), ''%;"></div>\<newline>''])\<close>
    by (rule sub_mid) (simp_all add: suffix_Cons)
  moreover have \<open>sublist (concat [''                            <div class="skill-fill" style="width: '',
                   str_int (level skill), ''%;"></div>\<newline>'']) (skill_item skill)\<close>
    unfolding skill_item_def by (rule sub_pieces) (simp add: sublist_Cons_right)
  ultimately show ?thesis by (rule sub_trans)
qed

lemma skill_item_in_render:
  assumes "skill \<in> set (skills doc)"
  shows "sublist (skill_item skill) (render doc)"
proof -
  from assms have ne: "skills doc \<noteq> []" by auto
  have "sublist (skill_item skill) (concat (map skill_item (skills doc)))"
    using assms by (rule sub_concat_map)
  moreover have "sublist (concat (map skill_item (skills doc))) (skills_section (skills doc))"
    using ne unfolding skills_section_def by (simp only: if_False) (rule sub_piece, simp)
  ultimately show ?thesis
    using skills_in_render by (blast intro: sub_trans)
qed

text \<open>
  Claim C8. For every conformant document and every skill entry in it, the page holds the
  filled bar of that entry, whose \<^verbatim>\<open>width\<close> is the level of the entry, written as a
  decimal number and followed by the percent sign: level 37 gives width 37%, level 0 gives
  0%, level 100 gives 100%.
\<close>

theorem skill_bar_width:
  assumes "skill \<in> set (skills doc)"
  shows \<open>sublist (''<div class="skill-fill" style="width: '' @ str_int (level skill) @ ''%;"></div>'')
           (render doc)\<close>
  using bar_in_skill_item skill_item_in_render[OF assms] by (rule sub_trans)

theorem skill_bar_width_witness:
  \<open>\<lparr>skill_entry.name = ''Python'', level = 37\<rparr> \<in> set [\<lparr>skill_entry.name = ''Python'', level = 37\<rparr>,
        \<lparr>skill_entry.name = ''SQL'', level = 0\<rparr>, \<lparr>skill_entry.name = ''Go'', level = 100\<rparr>] \<and>
   sublist ''<div class="skill-fill" style="width: 37%;"></div>''
     (render
       \<lparr>header = \<lparr>resume_header.name = ''Jane Doe'', resume_header.title = []\<rparr>,
        contact = \<lparr>phone = [], email = [], address = [], website = [], linkedin = []\<rparr>,
        summary = [],
        skills = [\<lparr>skill_entry.name = ''Python'', level = 37\<rparr>,
                  \<lparr>skill_entry.name = ''SQL'', level = 0\<rparr>, \<lparr>skill_entry.name = ''Go'', level = 100\<rparr>],
        projects = [], experience = [], education = []\<rparr>) \<and>
   sublist ''<div class="skill-fill" style="width: 0%;"></div>''
     (render
       \<lparr>header = \<lparr>resume_header.name = ''Jane Doe'', resume_header.title = []\<rparr>,
        contact = \<lparr>phone = [], email = [], address = [], website = [], linkedin = []\<rparr>,
        summary = [],
        skills = [\<lparr>skill_entry.name = ''Python'', level = 37\<rparr>,
                  \<lparr>skill_entry.name = ''SQL'', level = 0\<rparr>, \<lparr>skill_entry.name = ''Go'', level = 100\<rparr>],
        projects = [], experience = [], education = []\<rparr>) \<and>
   sublist ''<div class="skill-fill" style="width: 100%;"></div>''
     (render
       \<lparr>header = \<lparr>resume_header.name = ''Jane Doe'', resume_header.title = []\<rparr>,
        contact = \<lparr>phone = [], email = [], address = [], website = [], linkedin = []\<rparr>,
        summary = [],
        skills = [\<lparr>skill_entry.name = ''Python'', level = 37\<rparr>,
                  \<lparr>skill_entry.name = ''SQL'', level = 0\<rparr>, \<lparr>skill_entry.name = ''Go'', level = 100\<rparr>],
        projects = [], experience = [], education = []\<rparr>)\<close>
proof -
  let ?d = "\<lparr>header = \<lparr>resume_header.name = ''Jane Doe'', resume_header.title = []\<rparr>,
        contact = \<lparr>phone = [], email = [], address = [], website = [], linkedin = []\<rparr>,
        summary = [],
        skills = [\<lparr>skill_entry.name = ''Python'', level = 37\<rparr>,
                  \<lparr>skill_entry.name = ''SQL'', level = 0\<rparr>, \<lparr>skill_entry.name = ''Go'', level = 100\<rparr>],
        projects = [], experience = [], education = []\<rparr>"
  have s: "str_int 37 = ''37''" "str_int 0 = ''0''" "str_int 100 = ''100''" by code_simp+
  have "\<lparr>skill_entry.name = ''Python'', level = 37\<rparr> \<in> set (skills ?d)"
    "\<lparr>skill_entry.name = ''SQL'', level = 0\<rparr> \<in> set (skills ?d)"
    "\<lparr>skill_entry.name = ''Go'', level = 100\<rparr> \<in> set (skills ?d)" by simp_all
  from this[THEN skill_bar_width] show ?thesis by (simp add: s)
qed

subsection \<open>The Contact section\<close>

lemma contact_title_in_render:
  \<open>sublist ''<div class="section-title">Contact</div>'' (render doc)\<close>
proof -
  have a: \<open>sublist ''<div class="section-title">Contact</div>''
             ''                    <div class="section-title">Contact</div>\<newline>''\<close>
    by code_simp
  have b: \<open>sublist ''                    <div class="section-title">Contact</div>\<newline>''
             (render doc)\<close>
    unfolding render_def by (rule sub_piece) simp
  from a b show ?thesis by (rule sub_trans)
qed


subsection \<open>The end-to-end scenario\<close>

text \<open>
  The scenario of the specification, through both components. The raw mapping has a header
  name, one bare skill and three empty sequences, the profile an e-mail address. The
  normalized dictionary reads as a document of the schema; its page has the Contact
  section with the e-mail row only, the Relevant Skills section with one skill whose bar
  is 70% wide, and no Projects, Professional Experience or Education section.
\<close>

theorem end_to_end_scenario:
  \<open>validate_and_clean
     [(''header'', PDict [(''name'', PStr ''Jane Doe'')]), (''skills'', PList [PStr ''Python'']),
      (''projects'', PList []), (''experience'', PList []), (''education'', PList [])]
     [(''email'', PStr ''jane@x.com'')]
   = Inr [(''header'', PDict [(''name'', PStr ''Jane Doe''), (''title'', PStr [])]),
          (''contact'', PDict [(''phone'', PStr []), (''email'', PStr ''jane@x.com''),
                               (''address'', PStr []), (''website'', PStr []), (''linkedin'', PStr [])]),
          (''summary'', PStr []),
          (''skills'', PList [PDict [(''name'', PStr ''Python''), (''level'', PInt 70)]]),
          (''projects'', PList []), (''experience'', PList []), (''education'', PList [])] \<and>
   to_resume
     [(''header'', PDict [(''name'', PStr ''Jane Doe''), (''title'', PStr [])]),
      (''contact'', PDict [(''phone'', PStr []), (''email'', PStr ''jane@x.com''),
                           (''address'', PStr []), (''website'', PStr []), (''linkedin'', PStr [])]),
      (''summary'', PStr []),
      (''skills'', PList [PDict [(''name'', PStr ''Python''), (''level'', PInt 70)]]),
      (''projects'', PList []), (''experience'', PList []), (''education'', PList [])]
   = Some \<lparr>header = \<lparr>resume_header.name = ''Jane Doe'', resume_header.title = []\<rparr>,
            contact = \<lparr>phone = [], email = ''jane@x.com'', address = [], website = [], linkedin = []\<rparr>,
            summary = [], skills = [\<lparr>skill_entry.name = ''Python'', level = 70\<rparr>],
            projects = [], experience = [], education = []\<rparr> \<and>
   contact_rows \<lparr>phone = [], email = ''jane@x.com'', address = [], website = [], linkedin = []\<rparr>
   = concat
       [''\<newline>'',
        ''                    \<newline>'',
        ''                    <div class="contact-item">\<newline>'',
        ''                        <span class="contact-label">email</span>\<newline>'',
        ''                        <span class="contact-value">jane@x.com</span>\<newline>'',
        ''                    </div>\<newline>'',
        ''                    \<newline>'',
        ''                    \<newline>'',
        ''                    \<newline>'',
        ''                    ''] \<and>
   sublist ''<div class="section-title">Contact</div>''
     (render
       \<lparr>header = \<lparr>resume_header.name = ''Jane Doe'', resume_header.title = []\<rparr>,
        contact = \<lparr>phone = [], email = ''jane@x.com'', address = [], website = [], linkedin = []\<rparr>,
        summary = [], skills = [\<lparr>skill_entry.name = ''Python'', level = 70\<rparr>],
        projects = [], experience = [], education = []\<rparr>) \<and>
   occ ''<div class="section-title">Relevant Skills</div>''
     (render
       \<lparr>header = \<lparr>resume_header.name = ''Jane Doe'', resume_header.title = []\<rparr>,
        contact = \<lparr>phone = [], email = ''jane@x.com'', address = [], website = [], linkedin = []\<rparr>,
        summary = [], skills = [\<lparr>skill_entry.name = ''Python'', level = 70\<rparr>],
        projects = [], experience = [], education = []\<rparr>) = 1 \<and>
   occ ''<div class="skill-item">''
     (render
       \<lparr>header = \<lparr>resume_header.name = ''Jane Doe'', resume_header.title = []\<rparr>,
        contact = \<lparr>phone = [], email = ''jane@x.com'', address = [], website = [], linkedin = []\<rparr>,
        summary = [], skills = [\<lparr>skill_entry.name = ''Python'', level = 70\<rparr>],
        projects = [], experience = [], education = []\<rparr>) = 1 \<and>
   sublist ''<div class="skill-fill" style="width: 70%;"></div>''
     (render
       \<lparr>header = \<lparr>resume_header.name = ''Jane Doe'', resume_header.title = []\<rparr>,
        contact = \<lparr>phone = [], email = ''jane@x.com'', address = [], website = [], linkedin = []\<rparr>,
        summary = [], skills = [\<lparr>skill_entry.name = ''Python'', level = 70\<rparr>],
        projects = [], experience = [], education = []\<rparr>) \<and>
   \<not> sublist ''<div class="section-title">Projects</div>''
     (render
       \<lparr>header = \<lparr>resume_header.name = ''Jane Doe'', resume_header.title = []\<rparr>,
        contact = \<lparr>phone = [], email = ''jane@x.com'', address = [], website = [], linkedin = []\<rparr>,
        summary = [], skills = [\<lparr>skill_entry.name = ''Python'', level = 70\<rparr>],
        projects = [], experience = [], education = []\<rparr>) \<and>
   \<not> sublist ''<div class="section-title">Professional Experience</div>''
     (render
       \<lparr>header = \<lparr>resume_header.name = ''Jane Doe'', resume_header.title = []\<rparr>,
        contact = \<lparr>phone = [], email = ''jane@x.com'', address = [], website = [], linkedin = []\<rparr>,
        summary = [], skills = [\<lparr>skill_entry.name = ''Python'', level = 70\<rparr>],
        projects = [], experience = [], education = []\<rparr>) \<and>
   \<not> sublist ''<div class="section-title">Education</div>''
     (render
       \<lparr>header = \<lparr>resume_header.name = ''Jane Doe'', resume_header.title = []\<rparr>,
        contact = \<lparr>phone = [], email = ''jane@x.com'', address = [], website = [], linkedin = []\<rparr>,
        summary = [], skills = [\<lparr>skill_entry.name = ''Python'', level = 70\<rparr>],
        projects = [], experience = [], education = []\<rparr>)\<close>
proof -
  let ?doc = "\<lparr>header = \<lparr>resume_header.name = ''Jane Doe'', resume_header.title = []\<rparr>,
        contact = \<lparr>phone = [], email = ''jane@x.com'', address = [], website = [], linkedin = []\<rparr>,
        summary = [], skills = [\<lparr>skill_entry.name = ''Python'', level = 70\<rparr>],
        projects = [], experience = [], education = []\<rparr>"
  have run: "validate_and_clean
     [(''header'', PDict [(''name'', PStr ''Jane Doe'')]), (''skills'', PList [PStr ''Python'']),
      (''projects'', PList []), (''experience'', PList []), (''education'', PList [])]
     [(''email'', PStr ''jane@x.com'')]
   = Inr [(''header'', PDict [(''name'', PStr ''Jane Doe''), (''title'', PStr [])]),
          (''contact'', PDict [(''phone'', PStr []), (''email'', PStr ''jane@x.com''),
                               (''address'', PStr []), (''website'', PStr []), (''linkedin'', PStr [])]),
          (''summary'', PStr []),
          (''skills'', PList [PDict [(''name'', PStr ''Python''), (''level'', PInt 70)]]),
          (''projects'', PList []), (''experience'', PList []), (''education'', PList [])]"
    by code_simp
  have conv: "to_resume
     [(''header'', PDict [(''name'', PStr ''Jane Doe''), (''title'', PStr [])]),
      (''contact'', PDict [(''phone'', PStr []), (''email'', PStr ''jane@x.com''),
                           (''address'', PStr []), (''website'', PStr []), (''linkedin'', PStr [])]),
      (''summary'', PStr []),
      (''skills'', PList [PDict [(''name'', PStr ''Python''), (''level'', PInt 70)]]),
      (''projects'', PList []), (''experience'', PList []), (''education'', PList [])]
   = Some ?doc"
    by code_simp
  have rows: \<open>contact_rows \<lparr>phone = [], email = ''jane@x.com'', address = [], website = [], linkedin = []\<rparr>
   = concat
       [''\<newline>'',
        ''                    \<newline>'',
        ''                    <div class="contact-item">\<newline>'',
        ''                        <span class="contact-label">email</span>\<newline>'',
        ''                        <span class="contact-value">jane@x.com</span>\<newline>'',
        ''                    </div>\<newline>'',
        ''                    \<newline>'',
        ''                    \<newline>'',
        ''                    \<newline>'',
        ''                    '']\<close>
    by code_simp
  have pl: "plain_resume ?doc" by code_simp
  have s70: "str_int 70 = ''70''" by code_simp
  have "\<lparr>skill_entry.name = ''Python'', level = 70\<rparr> \<in> set (skills ?doc)" by simp
  from sub_trans[OF bar_in_skill_item skill_item_in_render[OF this]]
  have bar: \<open>sublist ''<div class="skill-fill" style="width: 70%;"></div>'' (render ?doc)\<close>
    by (simp add: s70)
  note n = render_counts[OF pl]
  have c1: \<open>occ ''<div class="section-title">Relevant Skills</div>'' (render ?doc) = 1\<close>
    and c2: \<open>occ ''<div class="skill-item">'' (render ?doc) = 1\<close>
    unfolding n by simp_all
  have n1: \<open>\<not> sublist ''<div class="section-title">Projects</div>'' (render ?doc)\<close>
    and n2: \<open>\<not> sublist ''<div class="section-title">Professional Experience</div>'' (render ?doc)\<close>
    and n3: \<open>\<not> sublist ''<div class="section-title">Education</div>'' (render ?doc)\<close>
    unfolding sublist_occ n by simp_all
  show ?thesis
    by (intro conjI) (rule run conv rows contact_title_in_render c1 c2 bar n1 n2 n3)+
qed

end
